theory Spec2Isabelle
  imports Main "HOL-Library.Word" "HOL-Library.Signed_Division" "HOL-Library.Multiset"
begin

section \<open>Data model (types.go)\<close>

text \<open>
  Go's \<open>int\<close> and \<open>int64\<close> are 64-bit two's complement integers on the platforms the
  tool is built for: both are \<open>64 word\<close>, so \<open>+\<close> and \<open>*\<close> wrap, \<open>sint\<close> reads the signed
  value and \<open><s\<close> is the signed comparison.

  Several Go structs have a field called \<open>Name\<close> (and \<open>ColumnName\<close>, \<open>Valid\<close>); the
  record fields carry a prefix naming the struct where the names would clash.
\<close>

type_synonym int64 = "64 word"

record NullString =
  NS_String :: string
  NS_Valid :: bool

record NullInt64 =
  Int64 :: int64
  Valid :: bool

record ColumnSchema =
  C_Name :: string
  DataType :: string
  Nullable :: string
  Key :: string
  Default :: NullString
  Extra :: string

record IndexSchema =
  I_Name :: string
  I_ColumnName :: string
  NonUnique :: int64

record ForeignKeySchema =
  F_Name :: string
  F_ColumnName :: string
  ReferencedTable :: string
  ReferencedColumn :: string

record TableSchema =
  T_Name :: string
  Columns :: "ColumnSchema list"
  Indexes :: "IndexSchema list"
  ForeignKeys :: "ForeignKeySchema list"
  PrimaryKeys :: "string list"

record ComparisonSummary =
  DifferentTables :: "string list"
  DifferentRowCounts :: "string \<rightharpoonup> (int64 \<times> int64)"
  TotalTablesChecked :: int64
  SchemaOnly :: bool

section \<open>Go maps and the order of \<open>range\<close>\<close>

text \<open>
  A Go map is a partial function. \<open>for k, v := range m\<close> visits every key of \<open>m\<close> exactly
  once, in an order the language leaves open and that may change from one loop to the
  next. Each loop over a map therefore takes the order it visits the keys in as an
  argument, and \<open>is_range ks m\<close> says that \<open>ks\<close> is an order Go may choose for \<open>m\<close>.
\<close>

definition is_range :: "'k list \<Rightarrow> ('k \<rightharpoonup> 'v) \<Rightarrow> bool" where
  "is_range ks m \<longleftrightarrow> distinct ks \<and> set ks = dom m"

text \<open>
  The key/value pairs a \<open>range\<close> loop sees when it visits the keys in the order \<open>ks\<close>
  (an element of \<open>ks\<close> that is not a key of \<open>m\<close> is passed over; with \<open>is_range ks m\<close>
  there is none).
\<close>

definition range_pairs :: "'k list \<Rightarrow> ('k \<rightharpoonup> 'v) \<Rightarrow> ('k \<times> 'v) list" where
  "range_pairs ks m = List.map_filter (\<lambda>k. map_option (Pair k) (m k)) ks"

section \<open>Helpers (util.go)\<close>

text \<open>\<open>contains\<close>: linear search with an early return.\<close>

fun contains :: "string list \<Rightarrow> string \<Rightarrow> bool" where
  "contains [] item = False"
| "contains (a # rest) item = (if a = item then True else contains rest item)"

text \<open>
  \<open>compareStringSlices\<close> builds \<open>mapA\<close> and \<open>mapB\<close> (\<open>map[string]bool\<close>, every stored
  value \<open>true\<close>) and then ranges over each. Reading a missing key of a \<open>map[string]bool\<close>
  gives the zero value \<open>false\<close>.
\<close>

definition boolMap :: "string list \<Rightarrow> (string \<rightharpoonup> bool)" where
  "boolMap xs = foldl (\<lambda>m val. m(val \<mapsto> True)) Map.empty xs"

definition lookupBool :: "(string \<rightharpoonup> bool) \<Rightarrow> string \<Rightarrow> bool" where
  "lookupBool m k = (case m k of None \<Rightarrow> False | Some b \<Rightarrow> b)"

text \<open>\<open>for val := range m1 { if !m2[val] { return false } }\<close>, visiting \<open>m1\<close> in the given order.\<close>

fun allIn :: "(string \<rightharpoonup> bool) \<Rightarrow> string list \<Rightarrow> bool" where
  "allIn m2 [] = True"
| "allIn m2 (val # rest) = (if \<not> lookupBool m2 val then False else allIn m2 rest)"

definition compareStringSlices :: "string list \<Rightarrow> string list \<Rightarrow> string list \<Rightarrow> string list \<Rightarrow> bool" where
  "compareStringSlices rangeA rangeB a b =
     (if length a \<noteq> length b then False
      else let mapA = boolMap a; mapB = boolMap b in
        if \<not> allIn mapB rangeA then False
        else if \<not> allIn mapA rangeB then False
        else True)"

section \<open>Adapter selection\<close>

datatype DatabaseAdapter = MySQLAdapter | PostgreSQLAdapter | SQLiteAdapter

text \<open>
  Errors: the one \<open>GetAdapter\<close> builds with
  \<open>fmt.Errorf("unsupported database type: %s", dbType)\<close>, whatever a database driver
  reports for a failed query, and the error of \<open>Scan\<close> when it cannot convert the
  floating-point value of a column to an integer destination.
\<close>

datatype error = UnsupportedDatabaseType string | DriverError string | ScanConversionError int

text \<open>Go returns the pair (adapter, error); \<open>None\<close> is \<open>nil\<close>.\<close>

definition GetAdapter :: "string \<Rightarrow> DatabaseAdapter option \<times> error option" where
  "GetAdapter dbType =
     (if dbType = ''mysql'' then (Some MySQLAdapter, None)
      else if dbType = ''postgres'' then (Some PostgreSQLAdapter, None)
      else if dbType = ''sqlite'' then (Some SQLiteAdapter, None)
      else (None, Some (UnsupportedDatabaseType dbType)))"

section \<open>Console output and database handles\<close>

text \<open>
  What the program prints is part of what it does: every function that prints returns
  the lines it printed, in order. A \<open>fmt.Printf\<close> call is recorded as its format string
  with its arguments (the rendering is the business of \<open>fmt\<close>), a \<open>fmt.Println\<close> call as
  its text, and a query sent to a database as the side it went to and its SQL text.
\<close>

datatype arg = S string | I int64 | B bool | L "string list" | E error

datatype side = Source | Target

datatype event = Printf string "arg list" | Println string | QueryRow side string

text \<open>
  A \<open>*sql.DB\<close> is used only through \<open>QueryRow(query).Scan(...)\<close>. The handle is modelled
  by what such a call yields for a query text: an error, or the scanned destination
  values (one integer for the count queries, whose column is an integer; the table name
  and a nullable integer for the \<open>CHECKSUM TABLE\<close> statement of MySQL; a nullable string
  for the MD5 query of PostgreSQL).

  The sum query of the SQLite adapter is different: \<open>total()\<close> always yields a
  floating-point value, which \<open>Scan\<close> has to convert to the \<open>int64\<close> destination. For that
  query the handle gives the value of the column (\<open>queryReal\<close>). A sum of row identifiers
  is a whole number, so the value is an \<open>int\<close>.
\<close>

record DB =
  scanInt :: "string \<Rightarrow> error + int64"
  scanChecksum :: "string \<Rightarrow> error + (string \<times> NullInt64)"
  scanHash :: "string \<Rightarrow> error + NullString"
  queryReal :: "string \<Rightarrow> error + int"

section \<open>Schema comparison (compare.go)\<close>

text \<open>
  \<open>compareTableSchema\<close> appends one formatted string per difference it finds. The model
  keeps each appended entry as the call site with its arguments (\<open>difference\<close>);
  \<open>describe\<close> is the \<open>fmt.Sprintf\<close> text of that call site, and \<open>compareTableSchema\<close>
  returns the described entries. \<open>sq\<close> is the single quote of the format strings.
\<close>

datatype difference =
    ColumnOnlyInSource string string
  | DataTypeDiffers string string string string
  | NullableDiffers string string string string
  | ColumnOnlyInTarget string string
  | PrimaryKeysDiffer string "string list" "string list"

definition sq :: string where
  "sq = [CHR 0x27]"

text \<open>
  \<open>strings.Join\<close>, and \<open>%v\<close> of a \<open>[]string\<close>: the elements separated by one space, in
  square brackets.
\<close>

fun Join :: "string list \<Rightarrow> string \<Rightarrow> string" where
  "Join [] sep = []"
| "Join [x] sep = x"
| "Join (x # y # ys) sep = x @ sep @ Join (y # ys) sep"

definition showStrings :: "string list \<Rightarrow> string" where
  "showStrings xs = ''['' @ Join xs '' '' @ '']''"

fun describe :: "difference \<Rightarrow> string" where
  "describe (ColumnOnlyInSource tableName colName) =
     ''Column '' @ sq @ tableName @ ''.'' @ colName @ sq @ '' exists in source but not in target''"
| "describe (DataTypeDiffers tableName colName src tgt) =
     ''Column '' @ sq @ tableName @ ''.'' @ colName @ sq @ '' has different data type: source=''
       @ sq @ src @ sq @ '', target='' @ sq @ tgt @ sq"
| "describe (NullableDiffers tableName colName src tgt) =
     ''Column '' @ sq @ tableName @ ''.'' @ colName @ sq @ '' has different nullable property: source=''
       @ sq @ src @ sq @ '', target='' @ sq @ tgt @ sq"
| "describe (ColumnOnlyInTarget tableName colName) =
     ''Column '' @ sq @ tableName @ ''.'' @ colName @ sq @ '' exists in target but not in source''"
| "describe (PrimaryKeysDiffer tableName src tgt) =
     ''Table '' @ sq @ tableName @ sq @ '' has different primary keys: source='' @ showStrings src
       @ '', target='' @ showStrings tgt"

text \<open>
  \<open>sourceColumns\<close> and \<open>targetColumns\<close>: the columns keyed by name; of two columns with
  one name the later one stays.
\<close>

definition columnMap :: "ColumnSchema list \<Rightarrow> (string \<rightharpoonup> ColumnSchema)" where
  "columnMap cols = foldl (\<lambda>m col. m(C_Name col \<mapsto> col)) Map.empty cols"

text \<open>
  The orders in which one call of \<open>compareTableSchema\<close> ranges over its four maps:
  \<open>sourceColumns\<close>, \<open>targetColumns\<close>, and \<open>mapA\<close> and \<open>mapB\<close> of \<open>compareStringSlices\<close>.
\<close>

record SchemaRanges =
  sourceColumnsRange :: "string list"
  targetColumnsRange :: "string list"
  mapARange :: "string list"
  mapBRange :: "string list"

definition schema_ranges_ok :: "SchemaRanges \<Rightarrow> TableSchema \<Rightarrow> TableSchema \<Rightarrow> bool" where
  "schema_ranges_ok r sourceSchema targetSchema \<longleftrightarrow>
     is_range (sourceColumnsRange r) (columnMap (Columns sourceSchema)) \<and>
     is_range (targetColumnsRange r) (columnMap (Columns targetSchema)) \<and>
     is_range (mapARange r) (boolMap (PrimaryKeys sourceSchema)) \<and>
     is_range (mapBRange r) (boolMap (PrimaryKeys targetSchema))"

text \<open>
  The loop state is the pair (\<open>hasDifferences\<close>, \<open>differences\<close>). One iteration of the loop
  over \<open>sourceColumns\<close>:
\<close>

definition sourceColumnStep ::
  "string \<Rightarrow> (string \<rightharpoonup> ColumnSchema) \<Rightarrow> bool \<times> difference list \<Rightarrow> string \<times> ColumnSchema
     \<Rightarrow> bool \<times> difference list" where
  "sourceColumnStep tableName targetColumns st kv =
     (case kv of (colName, sourceCol) \<Rightarrow>
        (case targetColumns colName of
           None \<Rightarrow> (True, snd st @ [ColumnOnlyInSource tableName colName])
         | Some targetCol \<Rightarrow>
             (let st1 = (if DataType sourceCol \<noteq> DataType targetCol
                         then (True, snd st @ [DataTypeDiffers tableName colName
                                                 (DataType sourceCol) (DataType targetCol)])
                         else st);
                  st2 = (if Nullable sourceCol \<noteq> Nullable targetCol
                         then (True, snd st1 @ [NullableDiffers tableName colName
                                                  (Nullable sourceCol) (Nullable targetCol)])
                         else st1)
              in st2)))"

text \<open>One iteration of the loop over the keys of \<open>targetColumns\<close>:\<close>

definition targetColumnStep ::
  "string \<Rightarrow> (string \<rightharpoonup> ColumnSchema) \<Rightarrow> bool \<times> difference list \<Rightarrow> string
     \<Rightarrow> bool \<times> difference list" where
  "targetColumnStep tableName sourceColumns st colName =
     (case sourceColumns colName of
        None \<Rightarrow> (True, snd st @ [ColumnOnlyInTarget tableName colName])
      | Some _ \<Rightarrow> st)"

definition compareTableSchemaDiffs ::
  "SchemaRanges \<Rightarrow> string \<Rightarrow> TableSchema \<Rightarrow> TableSchema \<Rightarrow> bool \<times> difference list" where
  "compareTableSchemaDiffs r tableName sourceSchema targetSchema =
     (let sourceColumns = columnMap (Columns sourceSchema);
          targetColumns = columnMap (Columns targetSchema);
          st0 = (False, []);
          st1 = foldl (sourceColumnStep tableName targetColumns) st0
                  (range_pairs (sourceColumnsRange r) sourceColumns);
          st2 = foldl (targetColumnStep tableName sourceColumns) st1
                  (map fst (range_pairs (targetColumnsRange r) targetColumns));
          st3 = (if \<not> compareStringSlices (mapARange r) (mapBRange r)
                         (PrimaryKeys sourceSchema) (PrimaryKeys targetSchema)
                 then (True, snd st2 @ [PrimaryKeysDiffer tableName
                                          (PrimaryKeys sourceSchema) (PrimaryKeys targetSchema)])
                 else st2)
      in st3)"

definition compareTableSchema ::
  "SchemaRanges \<Rightarrow> string \<Rightarrow> TableSchema \<Rightarrow> TableSchema \<Rightarrow> bool \<times> string list" where
  "compareTableSchema r tableName sourceSchema targetSchema =
     (case compareTableSchemaDiffs r tableName sourceSchema targetSchema of
        (hasDifferences, differences) \<Rightarrow> (hasDifferences, map describe differences))"

text \<open>
  \<open>compareDatabases\<close> ranges over \<open>sourceSchemas\<close> and over \<open>targetSchemas\<close>, and calls
  \<open>compareTableSchema\<close> once for every table on both sides; \<open>tableRanges\<close> gives the
  orders of that call. The state of the first loop is (\<open>missingTables\<close>, \<open>commonTables\<close>,
  \<open>schemaDifferences\<close>).
\<close>

record DatabaseRanges =
  sourceSchemasRange :: "string list"
  targetSchemasRange :: "string list"
  tableRanges :: "string \<Rightarrow> SchemaRanges"

definition sourceTableStep ::
  "DatabaseRanges \<Rightarrow> (string \<rightharpoonup> TableSchema)
     \<Rightarrow> string list \<times> string list \<times> (string \<rightharpoonup> string list)
     \<Rightarrow> string \<times> TableSchema
     \<Rightarrow> string list \<times> string list \<times> (string \<rightharpoonup> string list)" where
  "sourceTableStep R targetSchemas st kv =
     (case (st, kv) of ((missingTables, commonTables, schemaDifferences), (tableName, sourceSchema)) \<Rightarrow>
        (case targetSchemas tableName of
           None \<Rightarrow> (missingTables @ [tableName], commonTables, schemaDifferences)
         | Some targetSchema \<Rightarrow>
             (case compareTableSchema (tableRanges R tableName) tableName sourceSchema targetSchema of
                (hasDiffs, diffs) \<Rightarrow>
                  (missingTables, commonTables @ [tableName],
                   if hasDiffs then schemaDifferences(tableName \<mapsto> diffs) else schemaDifferences))))"

definition targetTableStep :: "(string \<rightharpoonup> TableSchema) \<Rightarrow> string list \<Rightarrow> string \<Rightarrow> string list" where
  "targetTableStep sourceSchemas extraTables tableName =
     (case sourceSchemas tableName of
        None \<Rightarrow> extraTables @ [tableName]
      | Some _ \<Rightarrow> extraTables)"

definition compareDatabases ::
  "DatabaseRanges \<Rightarrow> (string \<rightharpoonup> TableSchema) \<Rightarrow> (string \<rightharpoonup> TableSchema)
     \<Rightarrow> string list \<times> string list \<times> string list \<times> (string \<rightharpoonup> string list)" where
  "compareDatabases R sourceSchemas targetSchemas =
     (case foldl (sourceTableStep R targetSchemas) ([], [], Map.empty)
             (range_pairs (sourceSchemasRange R) sourceSchemas) of
        (missingTables, commonTables, schemaDifferences) \<Rightarrow>
          (let extraTables = foldl (targetTableStep sourceSchemas) []
                               (map fst (range_pairs (targetSchemasRange R) targetSchemas))
           in (missingTables, extraTables, commonTables, schemaDifferences)))"

subsection \<open>Indexes and foreign keys\<close>

text \<open>
  \<open>compareIndexes\<close> groups the index entries by index name and then by column name
  (\<open>map[string]map[string]IndexSchema\<close>). It prints what it finds and returns the flag
  \<open>hasDifferences\<close>, which it initialises to \<open>false\<close> and never assigns again.
\<close>

definition indexMap :: "IndexSchema list \<Rightarrow> (string \<rightharpoonup> (string \<rightharpoonup> IndexSchema))" where
  "indexMap idxs =
     foldl (\<lambda>m idx.
              (let inner = (case m (I_Name idx) of None \<Rightarrow> Map.empty | Some cols \<Rightarrow> cols)
               in m(I_Name idx \<mapsto> inner(I_ColumnName idx \<mapsto> idx))))
       Map.empty idxs"

text \<open>
  The orders in which \<open>compareIndexes\<close> ranges: over the two outer maps, and over the
  inner map of each index name (each inner map is ranged over once).
\<close>

record IndexRanges =
  sourceIndexMapRange :: "string list"
  targetIndexMapRange :: "string list"
  sourceIdxRange :: "string \<Rightarrow> string list"
  targetIdxRange :: "string \<Rightarrow> string list"

definition sourceIndexColStep ::
  "string \<Rightarrow> string \<Rightarrow> (string \<rightharpoonup> IndexSchema) \<Rightarrow> event list \<Rightarrow> string \<times> IndexSchema \<Rightarrow> event list" where
  "sourceIndexColStep tableName name targetIdx out kv =
     (case kv of (col, srcIdxCol) \<Rightarrow>
        (case targetIdx col of
           None \<Rightarrow> out @ [Printf ''Column '%s' of index '%s' exists in source but not in target for table '%s'\<newline>''
                             [S col, S name, S tableName]]
         | Some tgtIdxCol \<Rightarrow>
             if NonUnique srcIdxCol \<noteq> NonUnique tgtIdxCol
             then out @ [Printf ''Index '%s' on column '%s' has different uniqueness in table '%s': source=%v, target=%v\<newline>''
                           [S name, S col, S tableName, B (NonUnique srcIdxCol = 0), B (NonUnique tgtIdxCol = 0)]]
             else out))"

definition targetIndexColStep ::
  "string \<Rightarrow> string \<Rightarrow> (string \<rightharpoonup> IndexSchema) \<Rightarrow> event list \<Rightarrow> string \<Rightarrow> event list" where
  "targetIndexColStep tableName name sourceIdx out col =
     (case sourceIdx col of
        None \<Rightarrow> out @ [Printf ''Column '%s' of index '%s' exists in target but not in source for table '%s'\<newline>''
                          [S col, S name, S tableName]]
      | Some _ \<Rightarrow> out)"

definition sourceIndexStep ::
  "IndexRanges \<Rightarrow> string \<Rightarrow> (string \<rightharpoonup> (string \<rightharpoonup> IndexSchema)) \<Rightarrow> event list
     \<Rightarrow> string \<times> (string \<rightharpoonup> IndexSchema) \<Rightarrow> event list" where
  "sourceIndexStep r tableName targetIndexMap out kv =
     (case kv of (name, sourceIdx) \<Rightarrow>
        (case targetIndexMap name of
           None \<Rightarrow>
             (let columns = foldl (\<lambda>columns col. columns @ [col]) []
                              (map fst (range_pairs (sourceIdxRange r name) sourceIdx))
              in out @ [Printf ''Index '%s' on columns %v exists in source but not in target for table '%s'\<newline>''
                          [S name, L columns, S tableName]])
         | Some targetIdx \<Rightarrow>
             (let out1 = foldl (sourceIndexColStep tableName name targetIdx) out
                           (range_pairs (sourceIdxRange r name) sourceIdx);
                  out2 = foldl (targetIndexColStep tableName name sourceIdx) out1
                           (map fst (range_pairs (targetIdxRange r name) targetIdx))
              in out2)))"

definition targetIndexStep ::
  "IndexRanges \<Rightarrow> string \<Rightarrow> (string \<rightharpoonup> (string \<rightharpoonup> IndexSchema)) \<Rightarrow> event list
     \<Rightarrow> string \<times> (string \<rightharpoonup> IndexSchema) \<Rightarrow> event list" where
  "targetIndexStep r tableName sourceIndexMap out kv =
     (case kv of (name, targetIdx) \<Rightarrow>
        (case sourceIndexMap name of
           None \<Rightarrow>
             (let columns = foldl (\<lambda>columns col. columns @ [col]) []
                              (map fst (range_pairs (targetIdxRange r name) targetIdx))
              in out @ [Printf ''Index '%s' on columns %v exists in target but not in source for table '%s'\<newline>''
                          [S name, L columns, S tableName]])
         | Some _ \<Rightarrow> out))"

definition compareIndexes ::
  "IndexRanges \<Rightarrow> string \<Rightarrow> IndexSchema list \<Rightarrow> IndexSchema list \<Rightarrow> bool \<times> event list" where
  "compareIndexes r tableName sourceIndexes targetIndexes =
     (let hasDifferences = False;
          sourceIndexMap = indexMap sourceIndexes;
          targetIndexMap = indexMap targetIndexes;
          out1 = foldl (sourceIndexStep r tableName targetIndexMap) []
                   (range_pairs (sourceIndexMapRange r) sourceIndexMap);
          out2 = foldl (targetIndexStep r tableName sourceIndexMap) out1
                   (range_pairs (targetIndexMapRange r) targetIndexMap)
      in (hasDifferences, out2))"

text \<open>
  \<open>compareForeignKeys\<close> keys each foreign key by
  \<open>fmt.Sprintf("%s_%s_%s_%s", Name, ColumnName, ReferencedTable, ReferencedColumn)\<close>.
\<close>

definition fkKey :: "ForeignKeySchema \<Rightarrow> string" where
  "fkKey fk = F_Name fk @ ''_'' @ F_ColumnName fk @ ''_'' @ ReferencedTable fk @ ''_'' @ ReferencedColumn fk"

definition fkMap :: "ForeignKeySchema list \<Rightarrow> (string \<rightharpoonup> ForeignKeySchema)" where
  "fkMap fks = foldl (\<lambda>m fk. m(fkKey fk \<mapsto> fk)) Map.empty fks"

record ForeignKeyRanges =
  sourceFKMapRange :: "string list"
  targetFKMapRange :: "string list"

definition sourceFKStep ::
  "string \<Rightarrow> (string \<rightharpoonup> ForeignKeySchema) \<Rightarrow> event list \<Rightarrow> string \<times> ForeignKeySchema \<Rightarrow> event list" where
  "sourceFKStep tableName targetFKMap out kv =
     (case kv of (key, fk) \<Rightarrow>
        (case targetFKMap key of
           None \<Rightarrow> out @ [Printf ''Foreign key '%s' from '%s.%s' to '%s.%s' exists in source but not in target\<newline>''
                             [S (F_Name fk), S tableName, S (F_ColumnName fk),
                              S (ReferencedTable fk), S (ReferencedColumn fk)]]
         | Some _ \<Rightarrow> out))"

definition targetFKStep ::
  "string \<Rightarrow> (string \<rightharpoonup> ForeignKeySchema) \<Rightarrow> event list \<Rightarrow> string \<times> ForeignKeySchema \<Rightarrow> event list" where
  "targetFKStep tableName sourceFKMap out kv =
     (case kv of (key, fk) \<Rightarrow>
        (case sourceFKMap key of
           None \<Rightarrow> out @ [Printf ''Foreign key '%s' from '%s.%s' to '%s.%s' exists in target but not in source\<newline>''
                             [S (F_Name fk), S tableName, S (F_ColumnName fk),
                              S (ReferencedTable fk), S (ReferencedColumn fk)]]
         | Some _ \<Rightarrow> out))"

definition compareForeignKeys ::
  "ForeignKeyRanges \<Rightarrow> string \<Rightarrow> ForeignKeySchema list \<Rightarrow> ForeignKeySchema list \<Rightarrow> bool \<times> event list" where
  "compareForeignKeys r tableName sourceFKs targetFKs =
     (let hasDifferences = False;
          sourceFKMap = fkMap sourceFKs;
          targetFKMap = fkMap targetFKs;
          out1 = foldl (sourceFKStep tableName targetFKMap) []
                   (range_pairs (sourceFKMapRange r) sourceFKMap);
          out2 = foldl (targetFKStep tableName sourceFKMap) out1
                   (range_pairs (targetFKMapRange r) targetFKMap)
      in (hasDifferences, out2))"

section \<open>Adapters: row counts and data comparison\<close>

text \<open>
  \<open>CompareRowCounts\<close> is the same code in the three adapters up to the quoting of the
  table name: backticks for MySQL, double quotes for PostgreSQL and SQLite. It returns
  (\<open>sourceCount\<close>, \<open>targetCount\<close>, \<open>err\<close>), with both counts 0 when a query fails, and the
  target is not queried when the source query failed.
\<close>

definition dq :: string where
  "dq = [CHR 0x22]"

definition rowCounts :: "string \<Rightarrow> DB \<Rightarrow> DB \<Rightarrow> (int64 \<times> int64 \<times> error option) \<times> event list" where
  "rowCounts query sourceDB targetDB =
     (case scanInt sourceDB query of
        Inl err \<Rightarrow> ((0, 0, Some err), [QueryRow Source query])
      | Inr sourceCount \<Rightarrow>
          (case scanInt targetDB query of
             Inl err \<Rightarrow> ((0, 0, Some err), [QueryRow Source query, QueryRow Target query])
           | Inr targetCount \<Rightarrow>
               ((sourceCount, targetCount, None), [QueryRow Source query, QueryRow Target query])))"

definition MySQL_CompareRowCounts ::
  "DB \<Rightarrow> DB \<Rightarrow> string \<Rightarrow> (int64 \<times> int64 \<times> error option) \<times> event list" where
  "MySQL_CompareRowCounts sourceDB targetDB tableName =
     rowCounts (''SELECT COUNT(*) FROM `'' @ tableName @ ''`'') sourceDB targetDB"

definition PostgreSQL_CompareRowCounts ::
  "DB \<Rightarrow> DB \<Rightarrow> string \<Rightarrow> (int64 \<times> int64 \<times> error option) \<times> event list" where
  "PostgreSQL_CompareRowCounts sourceDB targetDB tableName =
     rowCounts (''SELECT COUNT(*) FROM '' @ dq @ tableName @ dq) sourceDB targetDB"

definition SQLite_CompareRowCounts ::
  "DB \<Rightarrow> DB \<Rightarrow> string \<Rightarrow> (int64 \<times> int64 \<times> error option) \<times> event list" where
  "SQLite_CompareRowCounts sourceDB targetDB tableName =
     rowCounts (''SELECT COUNT(*) FROM '' @ dq @ tableName @ dq) sourceDB targetDB"

text \<open>The call \<open>adapter.CompareRowCounts\<close> through the interface.\<close>

fun CompareRowCounts ::
  "DatabaseAdapter \<Rightarrow> DB \<Rightarrow> DB \<Rightarrow> string \<Rightarrow> (int64 \<times> int64 \<times> error option) \<times> event list" where
  "CompareRowCounts MySQLAdapter = MySQL_CompareRowCounts"
| "CompareRowCounts PostgreSQLAdapter = PostgreSQL_CompareRowCounts"
| "CompareRowCounts SQLiteAdapter = SQLite_CompareRowCounts"

text \<open>
  \<open>MySQLAdapter.CompareTableDataByChecksum\<close>. It returns (\<open>differs\<close>, \<open>err\<close>). The schema
  argument is not used.
\<close>

definition MySQL_CompareTableDataByChecksum ::
  "DB \<Rightarrow> DB \<Rightarrow> string \<Rightarrow> TableSchema \<Rightarrow> (bool \<times> error option) \<times> event list" where
  "MySQL_CompareTableDataByChecksum sourceDB targetDB tableName schema =
     (let query = ''CHECKSUM TABLE `'' @ tableName @ ''`'' in
      case scanChecksum sourceDB query of
        Inl err \<Rightarrow>
          ((False, Some err),
           [QueryRow Source query, Printf ''Error getting source checksum: %v\<newline>'' [E err]])
      | Inr (tableNameCol, sourceChecksum) \<Rightarrow>
          (case scanChecksum targetDB query of
             Inl err \<Rightarrow>
               ((False, Some err),
                [QueryRow Source query, QueryRow Target query,
                 Printf ''Error getting target checksum: %v\<newline>'' [E err]])
           | Inr (targetTableNameCol, targetChecksum) \<Rightarrow>
               (let out = [QueryRow Source query, QueryRow Target query] in
                if \<not> Valid sourceChecksum \<and> \<not> Valid targetChecksum
                then ((True, None),
                      out @ [Printf ''Checksums not available for table '%s'\<newline>'' [S tableName]])
                else if Valid sourceChecksum \<noteq> Valid targetChecksum
                then ((True, None),
                      out @ [Printf ''Table '%s' has different data (checksum validity differs)\<newline>''
                               [S tableName]])
                else if Int64 sourceChecksum \<noteq> Int64 targetChecksum
                then ((True, None), out)
                else ((False, None), out))))"

text \<open>
  \<open>PostgreSQLAdapter.CompareTableDataByChecksum\<close> has the same shape, with an MD5 hash
  over all rows in place of the checksum; \<open>getOrderByClause\<close> (util.go) orders the rows by
  the primary key or, without one, by all columns.
\<close>

definition getOrderByClause :: "TableSchema \<Rightarrow> string" where
  "getOrderByClause schema =
     (if length (PrimaryKeys schema) > 0
      then Join (map (\<lambda>col. dq @ col @ dq) (PrimaryKeys schema)) '', ''
      else Join (map (\<lambda>col. dq @ C_Name col @ dq) (Columns schema)) '', '')"

definition PostgreSQL_CompareTableDataByChecksum ::
  "DB \<Rightarrow> DB \<Rightarrow> string \<Rightarrow> TableSchema \<Rightarrow> (bool \<times> error option) \<times> event list" where
  "PostgreSQL_CompareTableDataByChecksum sourceDB targetDB tableName schema =
     (let out0 = [Printf ''Comparing data for table '%s' by hash...\<newline>'' [S tableName]];
          query = ''SELECT MD5(CAST((array_agg(t.* ORDER BY '' @ getOrderByClause schema
                    @ '')) AS text)) FROM '' @ tableName @ '' t'' in
      case scanHash sourceDB query of
        Inl err \<Rightarrow>
          ((False, Some err),
           out0 @ [QueryRow Source query, Printf ''Error getting source hash: %v\<newline>'' [E err]])
      | Inr sourceHash \<Rightarrow>
          (case scanHash targetDB query of
             Inl err \<Rightarrow>
               ((False, Some err),
                out0 @ [QueryRow Source query, QueryRow Target query,
                        Printf ''Error getting target hash: %v\<newline>'' [E err]])
           | Inr targetHash \<Rightarrow>
               (let out = out0 @ [QueryRow Source query, QueryRow Target query] in
                if \<not> NS_Valid sourceHash \<and> \<not> NS_Valid targetHash
                then ((False, None),
                      out @ [Printf ''Hash not available for table '%s'\<newline>'' [S tableName]])
                else if NS_Valid sourceHash \<noteq> NS_Valid targetHash
                then ((True, None),
                      out @ [Printf ''Table '%s' has different data (hash validity differs)\<newline>''
                               [S tableName]])
                else if NS_String sourceHash \<noteq> NS_String targetHash
                then ((True, None),
                      out @ [Printf ''Table '%s' has different data (hashes differ)\<newline>''
                               [S tableName]])
                else ((False, None),
                      out @ [Printf ''Table '%s' has identical data according to hash\<newline>''
                               [S tableName]]))))"

text \<open>
  \<open>Scan\<close> of a \<open>float64\<close> column value into an \<open>int64\<close> destination (\<open>database/sql\<close>,
  \<open>convertAssign\<close>): the value is formatted with \<open>strconv.FormatFloat(f, 'g', -1, 64)\<close>
  and the text is parsed with \<open>strconv.ParseInt\<close>. The shortest \<open>%g\<close> form of a whole
  number is its decimal digits as long as the decimal exponent is below 6, and takes an
  exponent from \<open>10^6\<close> on (\<open>1e+06\<close>, \<open>2.001e+06\<close>), which \<open>ParseInt\<close> rejects as invalid
  syntax. So the scan succeeds exactly for whole numbers of absolute value below \<open>10^6\<close>.
\<close>

definition scanFloatIntoInt64 :: "int \<Rightarrow> error + int64" where
  "scanFloatIntoInt64 f = (if \<bar>f\<bar> < 1000000 then Inr (word_of_int f) else Inl (ScanConversionError f))"

text \<open>\<open>db.QueryRow(query).Scan(&sum)\<close> with \<open>var sum int64\<close>, for a query yielding a float.\<close>

definition scanRealIntoInt64 :: "DB \<Rightarrow> string \<Rightarrow> error + int64" where
  "scanRealIntoInt64 db query =
     (case queryReal db query of
        Inl err \<Rightarrow> Inl err
      | Inr f \<Rightarrow> scanFloatIntoInt64 f)"

text \<open>
  \<open>SQLiteAdapter.CompareTableDataByChecksum\<close>: the row counts first, then
  \<open>total(rowid)\<close> on both sides, scanned into \<open>var sourceSum, targetSum int64\<close>. The schema
  argument is not used.
\<close>

definition SQLite_CompareTableDataByChecksum ::
  "DB \<Rightarrow> DB \<Rightarrow> string \<Rightarrow> TableSchema \<Rightarrow> (bool \<times> error option) \<times> event list" where
  "SQLite_CompareTableDataByChecksum sourceDB targetDB tableName schema =
     (let out0 = [Printf ''Comparing data for table '%s'...\<newline>'' [S tableName]] in
      case SQLite_CompareRowCounts sourceDB targetDB tableName of
        ((sourceCount, targetCount, Some err), ev) \<Rightarrow> ((False, Some err), out0 @ ev)
      | ((sourceCount, targetCount, None), ev) \<Rightarrow>
          if sourceCount \<noteq> targetCount
          then ((True, None),
                out0 @ ev @ [Printf ''Table '%s' has different row counts: source=%d, target=%d\<newline>''
                               [S tableName, I sourceCount, I targetCount]])
          else
            (let query = ''SELECT total(rowid) FROM '' @ tableName in
             case scanRealIntoInt64 sourceDB query of
               Inl err \<Rightarrow>
                 ((False, Some err),
                  out0 @ ev @ [QueryRow Source query, Printf ''Error getting source sum: %v\<newline>'' [E err]])
             | Inr sourceSum \<Rightarrow>
                 (case scanRealIntoInt64 targetDB query of
                    Inl err \<Rightarrow>
                      ((False, Some err),
                       out0 @ ev @ [QueryRow Source query, QueryRow Target query,
                                    Printf ''Error getting target sum: %v\<newline>'' [E err]])
                  | Inr targetSum \<Rightarrow>
                      if sourceSum \<noteq> targetSum
                      then ((True, None),
                            out0 @ ev @ [QueryRow Source query, QueryRow Target query,
                                         Printf ''Table '%s' has different data (row sums differ)\<newline>''
                                           [S tableName]])
                      else ((False, None),
                            out0 @ ev @ [QueryRow Source query, QueryRow Target query,
                                         Printf ''Table '%s' has likely identical data (same row count and sums)\<newline>''
                                           [S tableName]]))))"

section \<open>The data verification of \<open>main\<close>\<close>

text \<open>
  Go's \<open>/\<close> on \<open>int\<close>: the quotient truncated towards zero, wrapped to 64 bits. (Go
  panics on a zero divisor; the one division of \<open>main\<close> divides by \<open>len(commonTables)\<close>
  inside the loop over \<open>commonTables\<close>, where that length is at least 1 and, as the length
  of a slice, below \<open>2^63\<close>.)
\<close>

definition go_div :: "int64 \<Rightarrow> int64 \<Rightarrow> int64" where
  "go_div a b = word_of_int (sint a sdiv sint b)"

text \<open>
  The part of \<open>main\<close> from \<open>summary := ComparisonSummary{...}\<close> to
  \<open>fmt.Println("Progress: 100%")\<close>. First the tables with schema differences are put
  into \<open>summary.DifferentTables\<close>:
\<close>

definition schemaDifferencesStep :: "ComparisonSummary \<Rightarrow> string \<Rightarrow> ComparisonSummary" where
  "schemaDifferencesStep summary tableName =
     (if \<not> contains (DifferentTables summary) tableName
      then summary\<lparr>DifferentTables := DifferentTables summary @ [tableName]\<rparr>
      else summary)"

text \<open>
  One iteration of \<open>for i, tableName := range commonTables\<close>; the state is
  (\<open>lastPercentReported\<close>, \<open>summary\<close>, console output). The progress line is printed
  before the row counts are compared, so a failing comparison (\<open>continue\<close>) keeps it.
\<close>

definition tableStep ::
  "DatabaseAdapter \<Rightarrow> DB \<Rightarrow> DB \<Rightarrow> int64 \<Rightarrow> int64 \<times> ComparisonSummary \<times> event list \<Rightarrow> nat \<times> string
     \<Rightarrow> int64 \<times> ComparisonSummary \<times> event list" where
  "tableStep adapter sourceDB targetDB totalTables st it =
     (case (st, it) of ((lastPercentReported, summary, out), (i, tableName)) \<Rightarrow>
        (let currentPercent = go_div (word_of_nat i * 100) totalTables;
             reported = (lastPercentReported <s currentPercent);
             out1 = (if reported then out @ [Printf ''Progress: %d%%\<newline>'' [I currentPercent]] else out);
             last1 = (if reported then currentPercent else lastPercentReported)
         in case CompareRowCounts adapter sourceDB targetDB tableName of
              ((sourceCount, targetCount, Some err), ev) \<Rightarrow>
                (last1, summary,
                 out1 @ ev @ [Printf ''Error comparing row counts for table %s: %v\<newline>''
                                [S tableName, E err]])
            | ((sourceCount, targetCount, None), ev) \<Rightarrow>
                if sourceCount \<noteq> targetCount
                then (last1,
                      summary\<lparr>DifferentRowCounts :=
                                 (DifferentRowCounts summary)(tableName \<mapsto> (sourceCount, targetCount)),
                               DifferentTables := DifferentTables summary @ [tableName]\<rparr>,
                      out1 @ ev @ [Printf ''Table '%s' has different row counts: source=%d, target=%d\<newline>''
                                     [S tableName, I sourceCount, I targetCount]])
                else (last1, summary, out1 @ ev)))"

definition dataVerification ::
  "string list \<Rightarrow> DatabaseAdapter \<Rightarrow> DB \<Rightarrow> DB \<Rightarrow> string list \<Rightarrow> (string \<rightharpoonup> string list)
     \<Rightarrow> ComparisonSummary \<times> event list" where
  "dataVerification schemaDifferencesRange adapter sourceDB targetDB commonTables schemaDifferences =
     (let summary0 = \<lparr>DifferentTables = [], DifferentRowCounts = Map.empty,
                       TotalTablesChecked = 0, SchemaOnly = False\<rparr>;
          out0 = [Println ''\<newline>=== Data Differences ==='',
                  Printf ''Comparing data for %d tables...\<newline>''
                    [I (word_of_nat (length commonTables))]];
          totalTables = word_of_nat (length commonTables);
          lastPercentReported = - 1;
          summary1 = foldl schemaDifferencesStep summary0
                       (map fst (range_pairs schemaDifferencesRange schemaDifferences))
      in case foldl (tableStep adapter sourceDB targetDB totalTables)
                (lastPercentReported, summary1, out0) (enumerate 0 commonTables) of
           (lastPercent, summary, out) \<Rightarrow> (summary, out @ [Println ''Progress: 100%'']))"

text \<open>The same part of \<open>main\<close> with the call of \<open>compareDatabases\<close> that feeds it.\<close>

definition mainCompare ::
  "DatabaseRanges \<Rightarrow> string list \<Rightarrow> DatabaseAdapter \<Rightarrow> DB \<Rightarrow> DB
     \<Rightarrow> (string \<rightharpoonup> TableSchema) \<Rightarrow> (string \<rightharpoonup> TableSchema) \<Rightarrow> ComparisonSummary \<times> event list" where
  "mainCompare R schemaDifferencesRange adapter sourceDB targetDB sourceSchemas targetSchemas =
     (case compareDatabases R sourceSchemas targetSchemas of
        (missingTables, extraTables, commonTables, schemaDifferences) \<Rightarrow>
          dataVerification schemaDifferencesRange adapter sourceDB targetDB commonTables schemaDifferences)"

text \<open>The percentages of the progress lines in a console output, in the order printed.\<close>

fun progressOf :: "event \<Rightarrow> int64 option" where
  "progressOf (Printf format args) =
     (if format = ''Progress: %d%%\<newline>''
      then (case args of [I p] \<Rightarrow> Some p | _ \<Rightarrow> None)
      else None)"
| "progressOf _ = None"

definition percentages :: "event list \<Rightarrow> int64 list" where
  "percentages out = List.map_filter progressOf out"

section \<open>Notions used to state the properties\<close>

text \<open>
  What one iteration of each loop of \<open>compareTableSchema\<close> appends, and what the
  primary-key comparison appends.
\<close>

definition sourceEntries :: "string \<Rightarrow> (string \<rightharpoonup> ColumnSchema) \<Rightarrow> string \<times> ColumnSchema \<Rightarrow> difference list" where
  "sourceEntries tableName targetColumns kv =
     (case targetColumns (fst kv) of
        None \<Rightarrow> [ColumnOnlyInSource tableName (fst kv)]
      | Some targetCol \<Rightarrow>
          (if DataType (snd kv) \<noteq> DataType targetCol
           then [DataTypeDiffers tableName (fst kv) (DataType (snd kv)) (DataType targetCol)] else []) @
          (if Nullable (snd kv) \<noteq> Nullable targetCol
           then [NullableDiffers tableName (fst kv) (Nullable (snd kv)) (Nullable targetCol)] else []))"

definition targetEntries :: "string \<Rightarrow> (string \<rightharpoonup> ColumnSchema) \<Rightarrow> string \<Rightarrow> difference list" where
  "targetEntries tableName sourceColumns colName =
     (case sourceColumns colName of None \<Rightarrow> [ColumnOnlyInTarget tableName colName] | Some _ \<Rightarrow> [])"

definition primaryKeyEntries :: "SchemaRanges \<Rightarrow> string \<Rightarrow> string list \<Rightarrow> string list \<Rightarrow> difference list" where
  "primaryKeyEntries r tableName a b =
     (if compareStringSlices (mapARange r) (mapBRange r) a b then []
      else [PrimaryKeysDiffer tableName a b])"

text \<open>The column an entry is about, and the entries of a list that are about a column.\<close>

fun entryColumn :: "difference \<Rightarrow> string option" where
  "entryColumn (ColumnOnlyInSource t c) = Some c"
| "entryColumn (DataTypeDiffers t c a b) = Some c"
| "entryColumn (NullableDiffers t c a b) = Some c"
| "entryColumn (ColumnOnlyInTarget t c) = Some c"
| "entryColumn (PrimaryKeysDiffer t a b) = None"

definition entriesFor :: "string \<Rightarrow> difference list \<Rightarrow> difference list" where
  "entriesFor c ds = filter (\<lambda>e. entryColumn e = Some c) ds"

fun isPrimaryKeysDiffer :: "difference \<Rightarrow> bool" where
  "isPrimaryKeysDiffer (PrimaryKeysDiffer t a b) = True"
| "isPrimaryKeysDiffer _ = False"

text \<open>The table an entry names.\<close>

fun entryTable :: "difference \<Rightarrow> string" where
  "entryTable (ColumnOnlyInSource t c) = t"
| "entryTable (DataTypeDiffers t c a b) = t"
| "entryTable (NullableDiffers t c a b) = t"
| "entryTable (ColumnOnlyInTarget t c) = t"
| "entryTable (PrimaryKeysDiffer t a b) = t"

text \<open>
  \<open>currentPercent\<close> at index \<open>i\<close>, and the invariant of the loop over \<open>commonTables\<close>:
  the percentages printed so far increase strictly and none exceeds
  \<open>lastPercentReported\<close>.
\<close>

definition percentAt :: "int64 \<Rightarrow> nat \<Rightarrow> int64" where
  "percentAt totalTables i = go_div (word_of_nat i * 100) totalTables"

definition progress_inv :: "int64 \<times> ComparisonSummary \<times> event list \<Rightarrow> bool" where
  "progress_inv st \<longleftrightarrow>
     (case st of (lastPercentReported, summary, out) \<Rightarrow>
        sorted_wrt (<s) (percentages out) \<and>
        (\<forall>p \<in> set (percentages out). p \<le>s lastPercentReported))"

section \<open>Example inputs\<close>

text \<open>
  Two versions of a table \<open>users\<close>: \<open>id\<close> changes its type, \<open>name\<close> its nullability,
  \<open>legacy\<close> exists in the source only and \<open>email\<close> in the target only; the primary key is
  declared in the opposite order; the index and the foreign key of the source are gone
  in the target.
\<close>

definition exampleColumn :: "string \<Rightarrow> string \<Rightarrow> string \<Rightarrow> ColumnSchema" where
  "exampleColumn name dataType nullable =
     \<lparr>C_Name = name, DataType = dataType, Nullable = nullable, Key = [],
      Default = \<lparr>NS_String = [], NS_Valid = False\<rparr>, Extra = []\<rparr>"

definition usersSource :: TableSchema where
  "usersSource =
     \<lparr>T_Name = ''users'',
      Columns = [exampleColumn ''id'' ''INT'' ''NO'', exampleColumn ''name'' ''VARCHAR'' ''YES'',
                 exampleColumn ''legacy'' ''INT'' ''YES''],
      Indexes = [\<lparr>I_Name = ''idx_name'', I_ColumnName = ''name'', NonUnique = 1\<rparr>],
      ForeignKeys = [\<lparr>F_Name = ''fk_legacy'', F_ColumnName = ''legacy'',
                       ReferencedTable = ''orders'', ReferencedColumn = ''id''\<rparr>],
      PrimaryKeys = [''id'', ''name'']\<rparr>"

definition usersTarget :: TableSchema where
  "usersTarget =
     \<lparr>T_Name = ''users'',
      Columns = [exampleColumn ''id'' ''BIGINT'' ''NO'', exampleColumn ''name'' ''VARCHAR'' ''NO'',
                 exampleColumn ''email'' ''TEXT'' ''YES''],
      Indexes = [],
      ForeignKeys = [],
      PrimaryKeys = [''name'', ''id'']\<rparr>"

definition usersRanges :: SchemaRanges where
  "usersRanges =
     \<lparr>sourceColumnsRange = [''name'', ''legacy'', ''id''],
      targetColumnsRange = [''email'', ''id'', ''name''],
      mapARange = [''name'', ''id''],
      mapBRange = [''id'', ''name'']\<rparr>"

definition plainTable :: "string \<Rightarrow> TableSchema" where
  "plainTable name =
     \<lparr>T_Name = name, Columns = [exampleColumn ''id'' ''INT'' ''NO''], Indexes = [],
      ForeignKeys = [], PrimaryKeys = [''id'']\<rparr>"

text \<open>The source has the tables \<open>users\<close> and \<open>orders\<close>, the target \<open>users\<close> and \<open>products\<close>.\<close>

definition exampleSource :: "string \<rightharpoonup> TableSchema" where
  "exampleSource = [''users'' \<mapsto> usersSource, ''orders'' \<mapsto> plainTable ''orders'']"

definition exampleTarget :: "string \<rightharpoonup> TableSchema" where
  "exampleTarget = [''users'' \<mapsto> usersTarget, ''products'' \<mapsto> plainTable ''products'']"

definition exampleRanges :: DatabaseRanges where
  "exampleRanges =
     \<lparr>sourceSchemasRange = [''orders'', ''users''],
      targetSchemasRange = [''users'', ''products''],
      tableRanges = (\<lambda>tableName. usersRanges)\<rparr>"

text \<open>
  Database handles: every count is 100 in the source and 101 in the target,
  \<open>CHECKSUM TABLE\<close> and the MD5 query yield NULL on both sides, and every sum is 5050.
\<close>

definition nullChecksum :: "string \<Rightarrow> error + (string \<times> NullInt64)" where
  "nullChecksum query = Inr (''db.users'', \<lparr>Int64 = 0, Valid = False\<rparr>)"

definition nullHash :: "string \<Rightarrow> error + NullString" where
  "nullHash query = Inr \<lparr>NS_String = [], NS_Valid = False\<rparr>"

definition exampleSourceDB :: DB where
  "exampleSourceDB =
     \<lparr>scanInt = (\<lambda>query. Inr 100), scanChecksum = nullChecksum, scanHash = nullHash,
      queryReal = (\<lambda>query. Inr 5050)\<rparr>"

definition exampleTargetDB :: DB where
  "exampleTargetDB =
     \<lparr>scanInt = (\<lambda>query. Inr 101), scanChecksum = nullChecksum, scanHash = nullHash,
      queryReal = (\<lambda>query. Inr 5050)\<rparr>"

text \<open>
  Two SQLite handles for a table of 2000 rows on each side: in the source the row
  identifiers are 1 to 2000, with sum 2001000; in the target one row has the identifier
  4000 in place of 2000, with sum 2003000.
\<close>

definition eventsSourceDB :: DB where
  "eventsSourceDB =
     \<lparr>scanInt = (\<lambda>query. Inr 2000), scanChecksum = nullChecksum, scanHash = nullHash,
      queryReal = (\<lambda>query. Inr 2001000)\<rparr>"

definition eventsTargetDB :: DB where
  "eventsTargetDB =
     \<lparr>scanInt = (\<lambda>query. Inr 2000), scanChecksum = nullChecksum, scanHash = nullHash,
      queryReal = (\<lambda>query. Inr 2003000)\<rparr>"

text \<open>Range orders for \<open>compareIndexes\<close> and \<open>compareForeignKeys\<close> on the two \<open>users\<close> tables.\<close>

definition usersIndexRanges :: IndexRanges where
  "usersIndexRanges =
     \<lparr>sourceIndexMapRange = [''idx_name''], targetIndexMapRange = [],
      sourceIdxRange = (\<lambda>name. [''name'']), targetIdxRange = (\<lambda>name. [])\<rparr>"

definition usersForeignKeyRanges :: ForeignKeyRanges where
  "usersForeignKeyRanges =
     \<lparr>sourceFKMapRange = [''fk_legacy_legacy_orders_id''], targetFKMapRange = []\<rparr>"

definition threeTables :: "string list" where
  "threeTables = [''users'', ''orders'', ''products'']"

section \<open>Properties of the helpers\<close>

lemma dom_boolMap_foldl:
  "dom (foldl (\<lambda>m val. m(val \<mapsto> True)) m0 xs) = dom m0 \<union> set xs"
  by (induction xs arbitrary: m0) auto

lemma dom_boolMap: "dom (boolMap xs) = set xs"
  by (simp add: boolMap_def dom_boolMap_foldl)

lemma boolMap_foldl_apply:
  "foldl (\<lambda>m val. m(val \<mapsto> True)) m0 xs k = (if k \<in> set xs then Some True else m0 k)"
  by (induction xs arbitrary: m0) auto

lemma boolMap_apply: "boolMap xs k = (if k \<in> set xs then Some True else None)"
  by (simp add: boolMap_def boolMap_foldl_apply)

lemma lookupBool_boolMap: "lookupBool (boolMap xs) k \<longleftrightarrow> k \<in> set xs"
  by (simp add: lookupBool_def boolMap_apply)

lemma allIn_iff: "allIn m ks \<longleftrightarrow> (\<forall>k \<in> set ks. lookupBool m k)"
  by (induction ks) auto

lemma compareStringSlices_iff:
  assumes "is_range rangeA (boolMap a)" and "is_range rangeB (boolMap b)"
  shows "compareStringSlices rangeA rangeB a b \<longleftrightarrow> length a = length b \<and> set a = set b"
proof -
  from assms have "set rangeA = set a" and "set rangeB = set b"
    by (simp_all add: is_range_def dom_boolMap)
  then show ?thesis
    by (auto simp: compareStringSlices_def Let_def allIn_iff lookupBool_boolMap)
qed

section \<open>Properties of the schema comparison\<close>

subsection \<open>What \<open>compareTableSchema\<close> appends\<close>

lemma sourceColumnStep_eq:
  "sourceColumnStep t tc st kv =
     (fst st \<or> sourceEntries t tc kv \<noteq> [], snd st @ sourceEntries t tc kv)"
  by (cases st; cases kv) (simp add: sourceColumnStep_def sourceEntries_def Let_def split: option.splits)

lemma foldl_sourceColumnStep:
  "foldl (sourceColumnStep t tc) st ps =
     (fst st \<or> concat (map (sourceEntries t tc) ps) \<noteq> [],
      snd st @ concat (map (sourceEntries t tc) ps))"
  by (induction ps arbitrary: st) (auto simp: sourceColumnStep_eq)

lemma targetColumnStep_eq:
  "targetColumnStep t sc st c =
     (fst st \<or> targetEntries t sc c \<noteq> [], snd st @ targetEntries t sc c)"
  by (cases st) (simp add: targetColumnStep_def targetEntries_def split: option.splits)

lemma foldl_targetColumnStep:
  "foldl (targetColumnStep t sc) st cs =
     (fst st \<or> concat (map (targetEntries t sc) cs) \<noteq> [],
      snd st @ concat (map (targetEntries t sc) cs))"
  by (induction cs arbitrary: st) (auto simp: targetColumnStep_eq)

lemma compareTableSchemaDiffs_eq:
  "compareTableSchemaDiffs r t src tgt =
     (let ds = concat (map (sourceEntries t (columnMap (Columns tgt)))
                         (range_pairs (sourceColumnsRange r) (columnMap (Columns src)))) @
               concat (map (targetEntries t (columnMap (Columns src)))
                         (map fst (range_pairs (targetColumnsRange r) (columnMap (Columns tgt))))) @
               primaryKeyEntries r t (PrimaryKeys src) (PrimaryKeys tgt)
      in (ds \<noteq> [], ds))"
  by (simp add: compareTableSchemaDiffs_def Let_def foldl_sourceColumnStep foldl_targetColumnStep
      primaryKeyEntries_def)

lemma range_pairs_eq:
  "set ks \<subseteq> dom m \<Longrightarrow> range_pairs ks m = map (\<lambda>k. (k, the (m k))) ks"
  by (induction ks) (auto simp: range_pairs_def map_filter_simps)

lemma range_pairs_keys: "map fst (range_pairs ks m) = filter (\<lambda>k. m k \<noteq> None) ks"
  by (induction ks) (auto simp: range_pairs_def map_filter_simps)

lemma is_range_keys: "is_range ks m \<Longrightarrow> map fst (range_pairs ks m) = ks"
  unfolding range_pairs_keys by (rule filter_True) (auto simp: is_range_def)

lemma is_range_pairs: "is_range ks m \<Longrightarrow> range_pairs ks m = map (\<lambda>k. (k, the (m k))) ks"
  by (rule range_pairs_eq) (simp add: is_range_def)

lemma concat_map_other:
  "\<forall>k \<in> set ks. k \<noteq> c \<longrightarrow> g k = [] \<Longrightarrow> c \<notin> set ks \<Longrightarrow> concat (map g ks) = []"
  by (induction ks) auto

lemma concat_map_single:
  "distinct ks \<Longrightarrow> c \<in> set ks \<Longrightarrow> \<forall>k \<in> set ks. k \<noteq> c \<longrightarrow> g k = [] \<Longrightarrow> concat (map g ks) = g c"
  by (induction ks) (auto simp: concat_map_other)

lemma entriesFor_append: "entriesFor c (xs @ ys) = entriesFor c xs @ entriesFor c ys"
  by (simp add: entriesFor_def)

lemma entriesFor_concat: "entriesFor c (concat xss) = concat (map (entriesFor c) xss)"
  by (induction xss) (simp_all add: entriesFor_def)

lemma entriesFor_sourceEntries:
  "entriesFor c (sourceEntries t tc (k, v)) = (if k = c then sourceEntries t tc (k, v) else [])"
  by (auto simp: entriesFor_def sourceEntries_def split: option.splits)

lemma entriesFor_targetEntries:
  "entriesFor c (targetEntries t sc k) = (if k = c then targetEntries t sc k else [])"
  by (auto simp: entriesFor_def targetEntries_def split: option.splits)

lemma entriesFor_primaryKeyEntries: "entriesFor c (primaryKeyEntries r t a b) = []"
  by (simp add: entriesFor_def primaryKeyEntries_def)

lemma entriesFor_source_loop:
  assumes "is_range ks sm"
  shows "entriesFor c (concat (map (sourceEntries t tm) (range_pairs ks sm))) =
           (case sm c of None \<Rightarrow> [] | Some v \<Rightarrow> sourceEntries t tm (c, v))"
proof -
  let ?g = "\<lambda>k. entriesFor c (sourceEntries t tm (k, the (sm k)))"
  have eq: "entriesFor c (concat (map (sourceEntries t tm) (range_pairs ks sm))) = concat (map ?g ks)"
    by (simp add: is_range_pairs [OF assms] entriesFor_concat comp_def)
  have other: "\<forall>k \<in> set ks. k \<noteq> c \<longrightarrow> ?g k = []"
    by (simp add: entriesFor_sourceEntries)
  show ?thesis
  proof (cases "sm c")
    case None
    then have "c \<notin> set ks" using assms by (auto simp: is_range_def)
    with other have "concat (map ?g ks) = []" by (rule concat_map_other)
    with eq None show ?thesis by simp
  next
    case (Some v)
    then have "distinct ks" and "c \<in> set ks" using assms by (auto simp: is_range_def)
    then have "concat (map ?g ks) = ?g c" using other by (rule concat_map_single)
    with eq Some show ?thesis by (simp add: entriesFor_sourceEntries)
  qed
qed

lemma entriesFor_target_loop:
  assumes "is_range ks tm"
  shows "entriesFor c (concat (map (targetEntries t sm) (map fst (range_pairs ks tm)))) =
           (case tm c of None \<Rightarrow> [] | Some v \<Rightarrow> targetEntries t sm c)"
proof -
  let ?g = "\<lambda>k. entriesFor c (targetEntries t sm k)"
  have eq: "entriesFor c (concat (map (targetEntries t sm) (map fst (range_pairs ks tm)))) = concat (map ?g ks)"
    by (simp add: is_range_keys [OF assms] entriesFor_concat comp_def)
  have other: "\<forall>k \<in> set ks. k \<noteq> c \<longrightarrow> ?g k = []"
    by (simp add: entriesFor_targetEntries)
  show ?thesis
  proof (cases "tm c")
    case None
    then have "c \<notin> set ks" using assms by (auto simp: is_range_def)
    with other have "concat (map ?g ks) = []" by (rule concat_map_other)
    with eq None show ?thesis by simp
  next
    case (Some v)
    then have "distinct ks" and "c \<in> set ks" using assms by (auto simp: is_range_def)
    then have "concat (map ?g ks) = ?g c" using other by (rule concat_map_single)
    with eq Some show ?thesis by (simp add: entriesFor_targetEntries)
  qed
qed

lemma entriesFor_compareTableSchemaDiffs:
  assumes "schema_ranges_ok r src tgt"
  shows "entriesFor c (snd (compareTableSchemaDiffs r t src tgt)) =
           (case columnMap (Columns src) c of
              None \<Rightarrow> []
            | Some v \<Rightarrow> sourceEntries t (columnMap (Columns tgt)) (c, v)) @
           (case columnMap (Columns tgt) c of
              None \<Rightarrow> []
            | Some v \<Rightarrow> targetEntries t (columnMap (Columns src)) c)"
proof -
  from assms have s: "is_range (sourceColumnsRange r) (columnMap (Columns src))"
    and g: "is_range (targetColumnsRange r) (columnMap (Columns tgt))"
    by (simp_all add: schema_ranges_ok_def)
  show ?thesis
    unfolding compareTableSchemaDiffs_eq Let_def snd_conv entriesFor_append
      entriesFor_source_loop [OF s] entriesFor_target_loop [OF g] entriesFor_primaryKeyEntries
    by simp
qed

lemma dom_columnMap_foldl:
  "dom (foldl (\<lambda>m col. m(C_Name col \<mapsto> col)) m0 cols) = dom m0 \<union> C_Name ` set cols"
  by (induction cols arbitrary: m0) auto

lemma dom_columnMap: "dom (columnMap cols) = C_Name ` set cols"
  by (simp add: columnMap_def dom_columnMap_foldl)

subsection \<open>The table lists of \<open>compareDatabases\<close>\<close>

lemma sourceTableStep_lists:
  "sourceTableStep R tgt (ms, cs, sd) (k, v) =
     (ms @ (if tgt k = None then [k] else []),
      cs @ (if tgt k = None then [] else [k]),
      snd (snd (sourceTableStep R tgt (ms, cs, sd) (k, v))))"
  by (simp add: sourceTableStep_def split: option.splits prod.splits)

lemma foldl_sourceTableStep:
  "\<exists>sd'. foldl (sourceTableStep R tgt) (ms, cs, sd) ps =
     (ms @ filter (\<lambda>k. tgt k = None) (map fst ps),
      cs @ filter (\<lambda>k. tgt k \<noteq> None) (map fst ps), sd')"
proof (induction ps arbitrary: ms cs sd)
  case Nil
  then show ?case by simp
next
  case (Cons p ps)
  obtain k v where p: "p = (k, v)" by (cases p)
  obtain sd1 where step: "sourceTableStep R tgt (ms, cs, sd) (k, v) =
     (ms @ (if tgt k = None then [k] else []), cs @ (if tgt k = None then [] else [k]), sd1)"
    using sourceTableStep_lists by blast
  from Cons.IH [of "ms @ (if tgt k = None then [k] else [])" "cs @ (if tgt k = None then [] else [k])" sd1]
  show ?case by (auto simp: p step)
qed

lemma foldl_targetTableStep:
  "foldl (targetTableStep src) es ks = es @ filter (\<lambda>k. src k = None) ks"
  by (induction ks arbitrary: es) (auto simp: targetTableStep_def split: option.splits)

lemma compareDatabases_lists:
  assumes "is_range (sourceSchemasRange R) src" and "is_range (targetSchemasRange R) tgt"
  shows "\<exists>sd. compareDatabases R src tgt =
           (filter (\<lambda>k. tgt k = None) (sourceSchemasRange R),
            filter (\<lambda>k. src k = None) (targetSchemasRange R),
            filter (\<lambda>k. tgt k \<noteq> None) (sourceSchemasRange R), sd)"
proof -
  obtain sd where "foldl (sourceTableStep R tgt) ([], [], Map.empty) (range_pairs (sourceSchemasRange R) src) =
     ([] @ filter (\<lambda>k. tgt k = None) (map fst (range_pairs (sourceSchemasRange R) src)),
      [] @ filter (\<lambda>k. tgt k \<noteq> None) (map fst (range_pairs (sourceSchemasRange R) src)), sd)"
    using foldl_sourceTableStep by blast
  then show ?thesis
    by (simp add: compareDatabases_def foldl_targetTableStep is_range_keys [OF assms(1)]
        is_range_keys [OF assms(2)])
qed

text \<open>
  Claim C3. Whatever orders \<open>compareDatabases\<close> visits its two maps in, the
  missing tables are exactly the names of the source that the target lacks, the extra
  tables exactly the names of the target that the source lacks, and the common tables
  exactly the names on both sides; the three lists together hold every name of either
  side exactly once (no name twice, in one list or across lists).
\<close>

theorem compareDatabases_partition:
  assumes "is_range (sourceSchemasRange R) sourceSchemas"
    and "is_range (targetSchemasRange R) targetSchemas"
  shows "case compareDatabases R sourceSchemas targetSchemas of
           (missingTables, extraTables, commonTables, schemaDifferences) \<Rightarrow>
             set missingTables = dom sourceSchemas - dom targetSchemas \<and>
             set extraTables = dom targetSchemas - dom sourceSchemas \<and>
             set commonTables = dom sourceSchemas \<inter> dom targetSchemas \<and>
             distinct (missingTables @ extraTables @ commonTables) \<and>
             set (missingTables @ extraTables @ commonTables) = dom sourceSchemas \<union> dom targetSchemas"
proof -
  obtain sd where eq: "compareDatabases R sourceSchemas targetSchemas =
           (filter (\<lambda>k. targetSchemas k = None) (sourceSchemasRange R),
            filter (\<lambda>k. sourceSchemas k = None) (targetSchemasRange R),
            filter (\<lambda>k. targetSchemas k \<noteq> None) (sourceSchemasRange R), sd)"
    using compareDatabases_lists [OF assms] by blast
  from assms have s: "distinct (sourceSchemasRange R)" "set (sourceSchemasRange R) = dom sourceSchemas"
    and t: "distinct (targetSchemasRange R)" "set (targetSchemasRange R) = dom targetSchemas"
    by (simp_all add: is_range_def)
  have m: "set (filter (\<lambda>k. targetSchemas k = None) (sourceSchemasRange R)) = dom sourceSchemas - dom targetSchemas"
    using s by auto
  have e: "set (filter (\<lambda>k. sourceSchemas k = None) (targetSchemasRange R)) = dom targetSchemas - dom sourceSchemas"
    using t by auto
  have c: "set (filter (\<lambda>k. targetSchemas k \<noteq> None) (sourceSchemasRange R)) = dom sourceSchemas \<inter> dom targetSchemas"
    using s by auto
  have d: "distinct (filter (\<lambda>k. targetSchemas k = None) (sourceSchemasRange R) @
            filter (\<lambda>k. sourceSchemas k = None) (targetSchemasRange R) @
            filter (\<lambda>k. targetSchemas k \<noteq> None) (sourceSchemasRange R))"
    unfolding distinct_append m e c using s(1) t(1) by auto
  have u: "set (filter (\<lambda>k. targetSchemas k = None) (sourceSchemasRange R) @
            filter (\<lambda>k. sourceSchemas k = None) (targetSchemasRange R) @
            filter (\<lambda>k. targetSchemas k \<noteq> None) (sourceSchemasRange R)) = dom sourceSchemas \<union> dom targetSchemas"
    unfolding set_append m e c by auto
  show ?thesis unfolding eq prod.case using m e c d u by blast
qed

theorem compareDatabases_partition_witness:
  "is_range (sourceSchemasRange exampleRanges) exampleSource \<and>
   is_range (targetSchemasRange exampleRanges) exampleTarget \<and>
   (case compareDatabases exampleRanges exampleSource exampleTarget of
      (missingTables, extraTables, commonTables, schemaDifferences) \<Rightarrow>
        set missingTables = dom exampleSource - dom exampleTarget \<and>
        set extraTables = dom exampleTarget - dom exampleSource \<and>
        set commonTables = dom exampleSource \<inter> dom exampleTarget \<and>
        distinct (missingTables @ extraTables @ commonTables) \<and>
        set (missingTables @ extraTables @ commonTables) = dom exampleSource \<union> dom exampleTarget)"
proof -
  have s: "is_range (sourceSchemasRange exampleRanges) exampleSource"
    by (auto simp: is_range_def exampleRanges_def exampleSource_def)
  have t: "is_range (targetSchemasRange exampleRanges) exampleTarget"
    by (auto simp: is_range_def exampleRanges_def exampleTarget_def)
  from compareDatabases_partition [OF s t] s t show ?thesis by blast
qed

subsection \<open>Column entries\<close>

lemma last_describe:
  "last (describe e) =
     (case e of ColumnOnlyInSource t c \<Rightarrow> CHR ''t'' | ColumnOnlyInTarget t c \<Rightarrow> CHR ''e''
      | DataTypeDiffers t c a b \<Rightarrow> CHR 0x27 | NullableDiffers t c a b \<Rightarrow> CHR 0x27
      | PrimaryKeysDiffer t a b \<Rightarrow> CHR '']'')"
  by (cases e) (simp_all add: sq_def showStrings_def)

text \<open>
  Among the entries of one call (they all name the same table), the text of a
  missing-column entry belongs to that entry only.
\<close>

lemma describe_eq_source:
  assumes "describe e = describe (ColumnOnlyInSource t c)" and "entryTable e = t"
  shows "e = ColumnOnlyInSource t c"
proof -
  from assms(1) have "last (describe e) = last (describe (ColumnOnlyInSource t c))" by simp
  then obtain t' c' where e: "e = ColumnOnlyInSource t' c'"
    unfolding last_describe by (cases e) simp_all
  with assms show ?thesis by (simp add: sq_def)
qed

lemma describe_eq_target:
  assumes "describe e = describe (ColumnOnlyInTarget t c)" and "entryTable e = t"
  shows "e = ColumnOnlyInTarget t c"
proof -
  from assms(1) have "last (describe e) = last (describe (ColumnOnlyInTarget t c))" by simp
  then obtain t' c' where e: "e = ColumnOnlyInTarget t' c'"
    unfolding last_describe by (cases e) simp_all
  with assms show ?thesis by (simp add: sq_def)
qed

lemma entryTable_sourceEntries: "e \<in> set (sourceEntries t tm kv) \<Longrightarrow> entryTable e = t"
  by (auto simp: sourceEntries_def split: option.splits if_splits)

lemma entryTable_targetEntries: "e \<in> set (targetEntries t sm k) \<Longrightarrow> entryTable e = t"
  by (auto simp: targetEntries_def split: option.splits)

lemma entryTable_primaryKeyEntries: "e \<in> set (primaryKeyEntries r t a b) \<Longrightarrow> entryTable e = t"
  by (auto simp: primaryKeyEntries_def split: if_splits)

lemma entryTable_compareTableSchemaDiffs:
  "e \<in> set (snd (compareTableSchemaDiffs r t src tgt)) \<Longrightarrow> entryTable e = t"
  by (auto simp: compareTableSchemaDiffs_eq Let_def entryTable_sourceEntries
      entryTable_targetEntries entryTable_primaryKeyEntries)

lemma count_list_map_describe:
  assumes "\<forall>e \<in> set ds. describe e = describe d \<longrightarrow> e = d"
  shows "count_list (map describe ds) (describe d) = count_list ds d"
  using assms by (induction ds) auto

lemma count_list_entriesFor:
  "entryColumn d = Some c \<Longrightarrow> count_list ds d = count_list (entriesFor c ds) d"
  by (induction ds) (auto simp: entriesFor_def)

lemma snd_compareTableSchema:
  "snd (compareTableSchema r t src tgt) = map describe (snd (compareTableSchemaDiffs r t src tgt))"
  by (simp add: compareTableSchema_def split: prod.splits)

lemma count_source_text:
  "count_list (snd (compareTableSchema r t src tgt)) (describe (ColumnOnlyInSource t c)) =
     count_list (entriesFor c (snd (compareTableSchemaDiffs r t src tgt))) (ColumnOnlyInSource t c)"
proof -
  have "\<forall>e \<in> set (snd (compareTableSchemaDiffs r t src tgt)).
          describe e = describe (ColumnOnlyInSource t c) \<longrightarrow> e = ColumnOnlyInSource t c"
    using describe_eq_source entryTable_compareTableSchemaDiffs by blast
  then have "count_list (map describe (snd (compareTableSchemaDiffs r t src tgt)))
               (describe (ColumnOnlyInSource t c)) =
             count_list (snd (compareTableSchemaDiffs r t src tgt)) (ColumnOnlyInSource t c)"
    by (rule count_list_map_describe)
  also have "\<dots> = count_list (entriesFor c (snd (compareTableSchemaDiffs r t src tgt)))
                      (ColumnOnlyInSource t c)"
    by (rule count_list_entriesFor) simp
  finally show ?thesis
    unfolding snd_compareTableSchema .
qed

lemma count_target_text:
  "count_list (snd (compareTableSchema r t src tgt)) (describe (ColumnOnlyInTarget t c)) =
     count_list (entriesFor c (snd (compareTableSchemaDiffs r t src tgt))) (ColumnOnlyInTarget t c)"
proof -
  have "\<forall>e \<in> set (snd (compareTableSchemaDiffs r t src tgt)).
          describe e = describe (ColumnOnlyInTarget t c) \<longrightarrow> e = ColumnOnlyInTarget t c"
    using describe_eq_target entryTable_compareTableSchemaDiffs by blast
  then have "count_list (map describe (snd (compareTableSchemaDiffs r t src tgt)))
               (describe (ColumnOnlyInTarget t c)) =
             count_list (snd (compareTableSchemaDiffs r t src tgt)) (ColumnOnlyInTarget t c)"
    by (rule count_list_map_describe)
  also have "\<dots> = count_list (entriesFor c (snd (compareTableSchemaDiffs r t src tgt)))
                      (ColumnOnlyInTarget t c)"
    by (rule count_list_entriesFor) simp
  finally show ?thesis
    unfolding snd_compareTableSchema .
qed

text \<open>
  Claim C4. Let \<open>ds\<close> be the entries \<open>compareTableSchema\<close> appends and \<open>texts\<close> the list it
  returns (\<open>texts = map describe ds\<close>). For a column name found only among the source
  columns, the entries about that column are exactly one "exists in source but not in
  target" entry; the returned list holds that text once and the "exists in target but
  not in source" text of the column not at all. Symmetrically for a name found only among
  the target columns. For a name on both sides, the entries about it are one data-type
  entry if the data types differ, followed by one nullable entry if the nullable markers
  differ, and nothing else.
\<close>

theorem compareTableSchema_column_entries:
  fixes r :: SchemaRanges and tableName c :: string and sourceSchema targetSchema :: TableSchema
  assumes "schema_ranges_ok r sourceSchema targetSchema"
  defines "ds \<equiv> snd (compareTableSchemaDiffs r tableName sourceSchema targetSchema)"
    and "texts \<equiv> snd (compareTableSchema r tableName sourceSchema targetSchema)"
  shows "texts = map describe ds \<and>
         (c \<in> C_Name ` set (Columns sourceSchema) \<and> c \<notin> C_Name ` set (Columns targetSchema)
            \<longrightarrow> entriesFor c ds = [ColumnOnlyInSource tableName c] \<and>
                count_list texts (describe (ColumnOnlyInSource tableName c)) = 1 \<and>
                count_list texts (describe (ColumnOnlyInTarget tableName c)) = 0) \<and>
         (c \<notin> C_Name ` set (Columns sourceSchema) \<and> c \<in> C_Name ` set (Columns targetSchema)
            \<longrightarrow> entriesFor c ds = [ColumnOnlyInTarget tableName c] \<and>
                count_list texts (describe (ColumnOnlyInTarget tableName c)) = 1 \<and>
                count_list texts (describe (ColumnOnlyInSource tableName c)) = 0) \<and>
         (\<forall>sourceCol targetCol.
            columnMap (Columns sourceSchema) c = Some sourceCol \<and>
            columnMap (Columns targetSchema) c = Some targetCol
            \<longrightarrow> entriesFor c ds =
                  (if DataType sourceCol \<noteq> DataType targetCol
                   then [DataTypeDiffers tableName c (DataType sourceCol) (DataType targetCol)] else []) @
                  (if Nullable sourceCol \<noteq> Nullable targetCol
                   then [NullableDiffers tableName c (Nullable sourceCol) (Nullable targetCol)] else []))"
proof -
  note eq = entriesFor_compareTableSchemaDiffs [OF assms(1), of c tableName, folded ds_def]
  note cs = count_source_text [of r tableName sourceSchema targetSchema c, folded ds_def texts_def]
  note ct = count_target_text [of r tableName sourceSchema targetSchema c, folded ds_def texts_def]
  have t: "texts = map describe ds"
    by (simp add: texts_def ds_def snd_compareTableSchema)
  have a: "entriesFor c ds = [ColumnOnlyInSource tableName c] \<and>
           count_list texts (describe (ColumnOnlyInSource tableName c)) = 1 \<and>
           count_list texts (describe (ColumnOnlyInTarget tableName c)) = 0"
    if "c \<in> C_Name ` set (Columns sourceSchema) \<and> c \<notin> C_Name ` set (Columns targetSchema)"
  proof -
    from that have "c \<in> dom (columnMap (Columns sourceSchema))"
      and "c \<notin> dom (columnMap (Columns targetSchema))"
      by (simp_all add: dom_columnMap)
    then obtain v where "columnMap (Columns sourceSchema) c = Some v"
      and "columnMap (Columns targetSchema) c = None"
      by auto
    then have "entriesFor c ds = [ColumnOnlyInSource tableName c]"
      by (simp add: eq sourceEntries_def)
    then show ?thesis unfolding cs ct by simp
  qed
  have b: "entriesFor c ds = [ColumnOnlyInTarget tableName c] \<and>
           count_list texts (describe (ColumnOnlyInTarget tableName c)) = 1 \<and>
           count_list texts (describe (ColumnOnlyInSource tableName c)) = 0"
    if "c \<notin> C_Name ` set (Columns sourceSchema) \<and> c \<in> C_Name ` set (Columns targetSchema)"
  proof -
    from that have "c \<notin> dom (columnMap (Columns sourceSchema))"
      and "c \<in> dom (columnMap (Columns targetSchema))"
      by (simp_all add: dom_columnMap)
    then obtain v where "columnMap (Columns sourceSchema) c = None"
      and "columnMap (Columns targetSchema) c = Some v"
      by auto
    then have "entriesFor c ds = [ColumnOnlyInTarget tableName c]"
      by (simp add: eq targetEntries_def)
    then show ?thesis unfolding cs ct by simp
  qed
  have both: "\<forall>sourceCol targetCol.
            columnMap (Columns sourceSchema) c = Some sourceCol \<and>
            columnMap (Columns targetSchema) c = Some targetCol
            \<longrightarrow> entriesFor c ds =
                  (if DataType sourceCol \<noteq> DataType targetCol
                   then [DataTypeDiffers tableName c (DataType sourceCol) (DataType targetCol)] else []) @
                  (if Nullable sourceCol \<noteq> Nullable targetCol
                   then [NullableDiffers tableName c (Nullable sourceCol) (Nullable targetCol)] else [])"
    by (simp add: eq sourceEntries_def targetEntries_def)
  from t a b both show ?thesis by blast
qed

theorem compareTableSchema_column_entries_witness:
  "schema_ranges_ok usersRanges usersSource usersTarget \<and>
   ''legacy'' \<in> C_Name ` set (Columns usersSource) \<and> ''legacy'' \<notin> C_Name ` set (Columns usersTarget) \<and>
   entriesFor ''legacy'' (snd (compareTableSchemaDiffs usersRanges ''users'' usersSource usersTarget)) =
     [ColumnOnlyInSource ''users'' ''legacy''] \<and>
   count_list (snd (compareTableSchema usersRanges ''users'' usersSource usersTarget))
     (describe (ColumnOnlyInSource ''users'' ''legacy'')) = 1 \<and>
   ''email'' \<notin> C_Name ` set (Columns usersSource) \<and> ''email'' \<in> C_Name ` set (Columns usersTarget) \<and>
   entriesFor ''email'' (snd (compareTableSchemaDiffs usersRanges ''users'' usersSource usersTarget)) =
     [ColumnOnlyInTarget ''users'' ''email''] \<and>
   columnMap (Columns usersSource) ''id'' = Some (exampleColumn ''id'' ''INT'' ''NO'') \<and>
   columnMap (Columns usersTarget) ''id'' = Some (exampleColumn ''id'' ''BIGINT'' ''NO'') \<and>
   entriesFor ''id'' (snd (compareTableSchemaDiffs usersRanges ''users'' usersSource usersTarget)) =
     [DataTypeDiffers ''users'' ''id'' ''INT'' ''BIGINT'']"
proof -
  have ok: "schema_ranges_ok usersRanges usersSource usersTarget"
    by (auto simp: schema_ranges_ok_def is_range_def usersRanges_def usersSource_def usersTarget_def
        dom_columnMap dom_boolMap exampleColumn_def)
  have l: "''legacy'' \<in> C_Name ` set (Columns usersSource) \<and> ''legacy'' \<notin> C_Name ` set (Columns usersTarget)"
    by (simp add: usersSource_def usersTarget_def exampleColumn_def)
  have e: "''email'' \<notin> C_Name ` set (Columns usersSource) \<and> ''email'' \<in> C_Name ` set (Columns usersTarget)"
    by (simp add: usersSource_def usersTarget_def exampleColumn_def)
  have i: "columnMap (Columns usersSource) ''id'' = Some (exampleColumn ''id'' ''INT'' ''NO'') \<and>
           columnMap (Columns usersTarget) ''id'' = Some (exampleColumn ''id'' ''BIGINT'' ''NO'')"
    by (simp add: usersSource_def usersTarget_def columnMap_def exampleColumn_def)
  have ty: "DataType (exampleColumn ''id'' ''INT'' ''NO'') = ''INT''"
    "DataType (exampleColumn ''id'' ''BIGINT'' ''NO'') = ''BIGINT''"
    "Nullable (exampleColumn ''id'' ''INT'' ''NO'') = ''NO''"
    "Nullable (exampleColumn ''id'' ''BIGINT'' ''NO'') = ''NO''"
    by (simp_all add: exampleColumn_def)
  note legacy = compareTableSchema_column_entries
    [OF ok, where c = "''legacy''" and tableName = "''users''",
      THEN conjunct2, THEN conjunct1, THEN mp, OF l]
  note email = compareTableSchema_column_entries
    [OF ok, where c = "''email''" and tableName = "''users''",
      THEN conjunct2, THEN conjunct2, THEN conjunct1, THEN mp, OF e]
  note both = compareTableSchema_column_entries
    [OF ok, where c = "''id''" and tableName = "''users''",
      THEN conjunct2, THEN conjunct2, THEN conjunct2, THEN spec, THEN spec, THEN mp, OF i]
  have id: "entriesFor ''id'' (snd (compareTableSchemaDiffs usersRanges ''users'' usersSource usersTarget)) =
     [DataTypeDiffers ''users'' ''id'' ''INT'' ''BIGINT'']"
    unfolding both ty by simp
  show ?thesis
    by (intro conjI ok l [THEN conjunct1] l [THEN conjunct2] legacy [THEN conjunct1]
        legacy [THEN conjunct2, THEN conjunct1] e [THEN conjunct1] e [THEN conjunct2]
        email [THEN conjunct1] i [THEN conjunct1] i [THEN conjunct2] id)
qed

subsection \<open>Primary keys\<close>

lemma set_compareTableSchemaDiffs_no_pk:
  "e \<in> set (snd (compareTableSchemaDiffs r t src tgt)) \<Longrightarrow> isPrimaryKeysDiffer e \<Longrightarrow>
     \<not> compareStringSlices (mapARange r) (mapBRange r) (PrimaryKeys src) (PrimaryKeys tgt)"
  by (auto simp: compareTableSchemaDiffs_eq Let_def sourceEntries_def targetEntries_def
      primaryKeyEntries_def split: option.splits if_splits)

lemma describe_column_hd:
  "\<not> isPrimaryKeysDiffer e \<Longrightarrow> hd (describe e) = CHR ''C''"
  by (cases e) simp_all

lemma describe_pk_hd: "hd (describe (PrimaryKeysDiffer t a b)) = CHR ''T''"
  by simp

text \<open>
  Claim C5. When the primary-key lists of the two tables are permutations of each other,
  \<open>compareStringSlices\<close> returns true on them, whatever orders it visits
  \<open>mapA\<close> and \<open>mapB\<close> in, and \<open>compareTableSchema\<close> appends no primary-key entry: none
  among the entries, and no primary-key text in the returned list.
\<close>

theorem primary_keys_order_independent:
  assumes "mset (PrimaryKeys sourceSchema) = mset (PrimaryKeys targetSchema)"
    and "is_range (mapARange r) (boolMap (PrimaryKeys sourceSchema))"
    and "is_range (mapBRange r) (boolMap (PrimaryKeys targetSchema))"
  shows "compareStringSlices (mapARange r) (mapBRange r)
           (PrimaryKeys sourceSchema) (PrimaryKeys targetSchema) \<and>
         filter isPrimaryKeysDiffer
           (snd (compareTableSchemaDiffs r tableName sourceSchema targetSchema)) = [] \<and>
         (\<forall>a b. describe (PrimaryKeysDiffer tableName a b)
            \<notin> set (snd (compareTableSchema r tableName sourceSchema targetSchema)))"
proof -
  from assms(1) have "length (PrimaryKeys sourceSchema) = length (PrimaryKeys targetSchema)"
    and "set (PrimaryKeys sourceSchema) = set (PrimaryKeys targetSchema)"
    by (metis size_mset, metis set_mset_mset)
  then have eq: "compareStringSlices (mapARange r) (mapBRange r)
           (PrimaryKeys sourceSchema) (PrimaryKeys targetSchema)"
    by (simp add: compareStringSlices_iff [OF assms(2,3)])
  then have none: "\<forall>e \<in> set (snd (compareTableSchemaDiffs r tableName sourceSchema targetSchema)).
            \<not> isPrimaryKeysDiffer e"
    using set_compareTableSchemaDiffs_no_pk by blast
  then have empty: "filter isPrimaryKeysDiffer
           (snd (compareTableSchemaDiffs r tableName sourceSchema targetSchema)) = []"
    by (simp add: filter_empty_conv)
  have "\<forall>a b. describe (PrimaryKeysDiffer tableName a b)
            \<notin> set (snd (compareTableSchema r tableName sourceSchema targetSchema))"
  proof (intro allI notI)
    fix a b
    assume "describe (PrimaryKeysDiffer tableName a b)
            \<in> set (snd (compareTableSchema r tableName sourceSchema targetSchema))"
    then obtain e where e: "e \<in> set (snd (compareTableSchemaDiffs r tableName sourceSchema targetSchema))"
      and d: "describe e = describe (PrimaryKeysDiffer tableName a b)"
      unfolding snd_compareTableSchema by auto
    from e none have "\<not> isPrimaryKeysDiffer e" by blast
    then have "hd (describe e) = CHR ''C''" by (rule describe_column_hd)
    with d describe_pk_hd [of tableName a b] show False by simp
  qed
  with eq empty show ?thesis by blast
qed

theorem primary_keys_order_independent_witness:
  "mset (PrimaryKeys usersSource) = mset (PrimaryKeys usersTarget) \<and>
   PrimaryKeys usersSource = [''id'', ''name''] \<and> PrimaryKeys usersTarget = [''name'', ''id''] \<and>
   is_range (mapARange usersRanges) (boolMap (PrimaryKeys usersSource)) \<and>
   is_range (mapBRange usersRanges) (boolMap (PrimaryKeys usersTarget)) \<and>
   compareStringSlices (mapARange usersRanges) (mapBRange usersRanges)
     (PrimaryKeys usersSource) (PrimaryKeys usersTarget) \<and>
   filter isPrimaryKeysDiffer
     (snd (compareTableSchemaDiffs usersRanges ''users'' usersSource usersTarget)) = []"
proof -
  have m: "mset (PrimaryKeys usersSource) = mset (PrimaryKeys usersTarget)"
    by (simp add: usersSource_def usersTarget_def add.commute)
  have p: "PrimaryKeys usersSource = [''id'', ''name'']" "PrimaryKeys usersTarget = [''name'', ''id'']"
    by (simp_all add: usersSource_def usersTarget_def)
  have a: "is_range (mapARange usersRanges) (boolMap (PrimaryKeys usersSource))"
    by (auto simp: is_range_def usersRanges_def usersSource_def dom_boolMap)
  have b: "is_range (mapBRange usersRanges) (boolMap (PrimaryKeys usersTarget))"
    by (auto simp: is_range_def usersRanges_def usersTarget_def dom_boolMap)
  note inst = primary_keys_order_independent [OF m a b, of "''users''"]
  show ?thesis
    by (intro conjI m p a b inst [THEN conjunct1] inst [THEN conjunct2, THEN conjunct1])
qed

text \<open>
  Claim C10. \<open>compareStringSlices\<close> returns true exactly when the two lists have the same
  length and the same set of elements. Consequently two lists of equal length with equal
  sets compare equal even when they differ as multisets, as \<open>["a","a","b"]\<close> and
  \<open>["a","b","b"]\<close> do.
\<close>

theorem compareStringSlices_length_and_set:
  assumes "is_range rangeA (boolMap a)" and "is_range rangeB (boolMap b)"
  shows "(compareStringSlices rangeA rangeB a b \<longleftrightarrow> length a = length b \<and> set a = set b) \<and>
         (length a = length b \<and> set a = set b \<and> mset a \<noteq> mset b
            \<longrightarrow> compareStringSlices rangeA rangeB a b)"
proof -
  from assms have keysA: "set rangeA = set a" and keysB: "set rangeB = set b"
    by (simp_all add: is_range_def dom_boolMap)
  have a_in_b: "allIn (boolMap b) rangeA \<longleftrightarrow> set a \<subseteq> set b"
    using keysA by (auto simp: allIn_iff lookupBool_boolMap)
  have b_in_a: "allIn (boolMap a) rangeB \<longleftrightarrow> set b \<subseteq> set a"
    using keysB by (auto simp: allIn_iff lookupBool_boolMap)
  have "compareStringSlices rangeA rangeB a b \<longleftrightarrow>
          length a = length b \<and> set a \<subseteq> set b \<and> set b \<subseteq> set a"
    by (simp add: compareStringSlices_def Let_def a_in_b b_in_a)
  then have "compareStringSlices rangeA rangeB a b \<longleftrightarrow> length a = length b \<and> set a = set b"
    by auto
  then show ?thesis by blast
qed

theorem compareStringSlices_length_and_set_witness:
  "is_range [''a'', ''b''] (boolMap [''a'', ''a'', ''b'']) \<and>
   is_range [''b'', ''a''] (boolMap [''a'', ''b'', ''b'']) \<and>
   length [''a'', ''a'', ''b''] = length [''a'', ''b'', ''b''] \<and>
   set [''a'', ''a'', ''b''] = set [''a'', ''b'', ''b''] \<and>
   mset [''a'', ''a'', ''b''] \<noteq> mset [''a'', ''b'', ''b''] \<and>
   compareStringSlices [''a'', ''b''] [''b'', ''a''] [''a'', ''a'', ''b''] [''a'', ''b'', ''b'']"
proof -
  have a: "is_range [''a'', ''b''] (boolMap [''a'', ''a'', ''b''])"
    by (auto simp: is_range_def dom_boolMap)
  have b: "is_range [''b'', ''a''] (boolMap [''a'', ''b'', ''b''])"
    by (auto simp: is_range_def dom_boolMap)
  have l: "length [''a'', ''a'', ''b''] = length [''a'', ''b'', ''b'']" by simp
  have s: "set [''a'', ''a'', ''b''] = set [''a'', ''b'', ''b'']" by auto
  have m: "mset [''a'', ''a'', ''b''] \<noteq> mset [''a'', ''b'', ''b'']"
  proof
    assume "mset [''a'', ''a'', ''b''] = mset [''a'', ''b'', ''b'']"
    then have "count (mset [''a'', ''a'', ''b'']) ''a'' = count (mset [''a'', ''b'', ''b'']) ''a''"
      by (rule arg_cong)
    then show False by simp
  qed
  note inst = compareStringSlices_length_and_set [OF a b, THEN conjunct2, THEN mp, OF conjI [OF l conjI [OF s m]]]
  show ?thesis
    by (intro conjI a b l s m inst)
qed

subsection \<open>Indexes and foreign keys\<close>

text \<open>
  Claim C6. \<open>compareIndexes\<close> and \<open>compareForeignKeys\<close> return false for all index and
  foreign-key lists, whatever they print. What \<open>compareTableSchema\<close> returns does not depend
  on the indexes and foreign keys of the two tables, and every entry it returns is a
  \<open>Column '...\<close> or a \<open>Table '...\<close> text, so none is an index or foreign-key notice.
\<close>

theorem index_and_foreign_key_findings_not_returned:
  "fst (compareIndexes ri tableName (Indexes sourceSchema) (Indexes targetSchema)) = False \<and>
   fst (compareForeignKeys rf tableName (ForeignKeys sourceSchema) (ForeignKeys targetSchema)) = False \<and>
   compareTableSchema r tableName
     (sourceSchema\<lparr>Indexes := sourceIndexes, ForeignKeys := sourceFKs\<rparr>)
     (targetSchema\<lparr>Indexes := targetIndexes, ForeignKeys := targetFKs\<rparr>) =
   compareTableSchema r tableName sourceSchema targetSchema \<and>
   (\<forall>d \<in> set (snd (compareTableSchema r tableName sourceSchema targetSchema)).
      take 8 d = ''Column '' @ sq \<or> take 7 d = ''Table '' @ sq)"
proof -
  have a: "fst (compareIndexes ri tableName (Indexes sourceSchema) (Indexes targetSchema)) = False"
    by (simp add: compareIndexes_def Let_def)
  have b: "fst (compareForeignKeys rf tableName (ForeignKeys sourceSchema) (ForeignKeys targetSchema)) = False"
    by (simp add: compareForeignKeys_def Let_def)
  have c: "compareTableSchema r tableName
     (sourceSchema\<lparr>Indexes := sourceIndexes, ForeignKeys := sourceFKs\<rparr>)
     (targetSchema\<lparr>Indexes := targetIndexes, ForeignKeys := targetFKs\<rparr>) =
   compareTableSchema r tableName sourceSchema targetSchema"
    by (simp add: compareTableSchema_def compareTableSchemaDiffs_def Let_def)
  have d: "take 8 (describe e) = ''Column '' @ sq \<or> take 7 (describe e) = ''Table '' @ sq" for e
    by (cases e) (simp_all add: sq_def)
  have "\<forall>d \<in> set (snd (compareTableSchema r tableName sourceSchema targetSchema)).
      take 8 d = ''Column '' @ sq \<or> take 7 d = ''Table '' @ sq"
    unfolding snd_compareTableSchema using d by auto
  with a b c show ?thesis by blast
qed

lemma users_differences:
  "snd (compareTableSchemaDiffs usersRanges ''users'' usersSource usersTarget) =
     [NullableDiffers ''users'' ''name'' ''YES'' ''NO'',
      ColumnOnlyInSource ''users'' ''legacy'',
      DataTypeDiffers ''users'' ''id'' ''INT'' ''BIGINT'',
      ColumnOnlyInTarget ''users'' ''email'']"
  by (simp add: compareTableSchemaDiffs_eq Let_def usersRanges_def usersSource_def usersTarget_def
      range_pairs_def map_filter_simps columnMap_def exampleColumn_def sourceEntries_def
      targetEntries_def primaryKeyEntries_def compareStringSlices_def boolMap_def lookupBool_def)

theorem index_and_foreign_key_findings_not_returned_witness:
  "snd (compareIndexes usersIndexRanges ''users'' (Indexes usersSource) (Indexes usersTarget)) =
     [Printf ''Index '%s' on columns %v exists in source but not in target for table '%s'\<newline>''
        [S ''idx_name'', L [''name''], S ''users'']] \<and>
   fst (compareIndexes usersIndexRanges ''users'' (Indexes usersSource) (Indexes usersTarget)) = False \<and>
   snd (compareForeignKeys usersForeignKeyRanges ''users'' (ForeignKeys usersSource) (ForeignKeys usersTarget)) =
     [Printf ''Foreign key '%s' from '%s.%s' to '%s.%s' exists in source but not in target\<newline>''
        [S ''fk_legacy'', S ''users'', S ''legacy'', S ''orders'', S ''id'']] \<and>
   fst (compareForeignKeys usersForeignKeyRanges ''users'' (ForeignKeys usersSource) (ForeignKeys usersTarget)) = False \<and>
   compareTableSchema usersRanges ''users''
     (usersSource\<lparr>Indexes := [], ForeignKeys := []\<rparr>)
     (usersTarget\<lparr>Indexes := Indexes usersSource, ForeignKeys := ForeignKeys usersSource\<rparr>) =
   compareTableSchema usersRanges ''users'' usersSource usersTarget \<and>
   describe (ColumnOnlyInSource ''users'' ''legacy'')
     \<in> set (snd (compareTableSchema usersRanges ''users'' usersSource usersTarget)) \<and>
   (take 8 (describe (ColumnOnlyInSource ''users'' ''legacy'')) = ''Column '' @ sq \<or>
    take 7 (describe (ColumnOnlyInSource ''users'' ''legacy'')) = ''Table '' @ sq)"
proof -
  have i: "snd (compareIndexes usersIndexRanges ''users'' (Indexes usersSource) (Indexes usersTarget)) =
     [Printf ''Index '%s' on columns %v exists in source but not in target for table '%s'\<newline>''
        [S ''idx_name'', L [''name''], S ''users'']]"
    by (simp add: compareIndexes_def Let_def usersIndexRanges_def usersSource_def usersTarget_def
        indexMap_def range_pairs_def map_filter_simps sourceIndexStep_def)
  have f: "snd (compareForeignKeys usersForeignKeyRanges ''users'' (ForeignKeys usersSource) (ForeignKeys usersTarget)) =
     [Printf ''Foreign key '%s' from '%s.%s' to '%s.%s' exists in source but not in target\<newline>''
        [S ''fk_legacy'', S ''users'', S ''legacy'', S ''orders'', S ''id'']]"
    by (simp add: compareForeignKeys_def Let_def usersForeignKeyRanges_def usersSource_def
        usersTarget_def fkMap_def fkKey_def range_pairs_def map_filter_simps sourceFKStep_def)
  have m: "describe (ColumnOnlyInSource ''users'' ''legacy'')
     \<in> set (snd (compareTableSchema usersRanges ''users'' usersSource usersTarget))"
    unfolding snd_compareTableSchema users_differences by (simp del: describe.simps)
  note inst = index_and_foreign_key_findings_not_returned
    [where ri = usersIndexRanges and rf = usersForeignKeyRanges and r = usersRanges
       and tableName = "''users''" and sourceSchema = usersSource and targetSchema = usersTarget
       and sourceIndexes = "[]" and sourceFKs = "[]"
       and targetIndexes = "Indexes usersSource" and targetFKs = "ForeignKeys usersSource"]
  note entry = inst [THEN conjunct2, THEN conjunct2, THEN conjunct2, THEN bspec, OF m]
  show ?thesis
    by (intro conjI i f m entry inst [THEN conjunct1] inst [THEN conjunct2, THEN conjunct1]
        inst [THEN conjunct2, THEN conjunct2, THEN conjunct1])
qed

section \<open>Properties of the adapters\<close>

text \<open>
  Claim C8. \<open>GetAdapter\<close> returns the MySQL, PostgreSQL and SQLite adapter for the tags
  \<open>mysql\<close>, \<open>postgres\<close> and \<open>sqlite\<close>, each with no error; for every other tag it
  returns no adapter (\<open>nil\<close>) and the unsupported-database-type error for that tag.
\<close>

theorem GetAdapter_by_tag:
  "GetAdapter ''mysql'' = (Some MySQLAdapter, None) \<and>
   GetAdapter ''postgres'' = (Some PostgreSQLAdapter, None) \<and>
   GetAdapter ''sqlite'' = (Some SQLiteAdapter, None) \<and>
   (dbType \<notin> {''mysql'', ''postgres'', ''sqlite''}
      \<longrightarrow> GetAdapter dbType = (None, Some (UnsupportedDatabaseType dbType)))"
  by (simp add: GetAdapter_def)

theorem GetAdapter_by_tag_witness:
  "''oracle'' \<notin> {''mysql'', ''postgres'', ''sqlite''} \<and>
   GetAdapter ''oracle'' = (None, Some (UnsupportedDatabaseType ''oracle''))"
proof -
  have t: "''oracle'' \<notin> {''mysql'', ''postgres'', ''sqlite''}" by simp
  note inst = GetAdapter_by_tag [of "''oracle''", THEN conjunct2, THEN conjunct2, THEN conjunct2,
      THEN mp, OF t]
  show ?thesis by (intro conjI t inst)
qed

text \<open>
  When both checksum queries succeed and neither checksum is valid,
  \<open>MySQLAdapter.CompareTableDataByChecksum\<close> returns \<open>differs = true\<close> with no error,
  after querying both sides and printing the notice that checksums are not available
  for the table.
\<close>

lemma MySQL_checksum_both_null:
  assumes "scanChecksum sourceDB (''CHECKSUM TABLE `'' @ tableName @ ''`'') = Inr (sourceName, sourceChecksum)"
    and "scanChecksum targetDB (''CHECKSUM TABLE `'' @ tableName @ ''`'') = Inr (targetName, targetChecksum)"
    and "\<not> Valid sourceChecksum" and "\<not> Valid targetChecksum"
  shows "MySQL_CompareTableDataByChecksum sourceDB targetDB tableName schema =
           ((True, None),
            [QueryRow Source (''CHECKSUM TABLE `'' @ tableName @ ''`''),
             QueryRow Target (''CHECKSUM TABLE `'' @ tableName @ ''`''),
             Printf ''Checksums not available for table '%s'\<newline>'' [S tableName]])"
  using assms by (simp add: MySQL_CompareTableDataByChecksum_def Let_def)

text \<open>
  The PostgreSQL adapter, in the same situation (both hash queries succeed, neither hash
  is valid), returns \<open>differs = false\<close>.
\<close>

lemma PostgreSQL_hash_both_null:
  assumes "scanHash sourceDB (''SELECT MD5(CAST((array_agg(t.* ORDER BY '' @ getOrderByClause schema
                    @ '')) AS text)) FROM '' @ tableName @ '' t'') = Inr sourceHash"
    and "scanHash targetDB (''SELECT MD5(CAST((array_agg(t.* ORDER BY '' @ getOrderByClause schema
                    @ '')) AS text)) FROM '' @ tableName @ '' t'') = Inr targetHash"
    and "\<not> NS_Valid sourceHash" and "\<not> NS_Valid targetHash"
  shows "fst (PostgreSQL_CompareTableDataByChecksum sourceDB targetDB tableName schema) = (False, None)"
  using assms by (simp add: PostgreSQL_CompareTableDataByChecksum_def Let_def)

lemma PostgreSQL_hash_both_null_example:
  "fst (PostgreSQL_CompareTableDataByChecksum exampleSourceDB exampleTargetDB ''users'' usersSource)
     = (False, None)"
  by (simp add: PostgreSQL_CompareTableDataByChecksum_def Let_def exampleSourceDB_def
      exampleTargetDB_def nullHash_def)

text \<open>
  Claim C1 says that \<open>MySQLAdapter.CompareTableDataByChecksum\<close> reports no difference
  when neither side has a valid checksum. On the example handles, where
  \<open>CHECKSUM TABLE\<close> yields NULL on both sides, it reports a difference: it returns
  \<open>differs = true\<close> with no error, after the two queries and the notice that checksums are
  not available.
\<close>

theorem MySQL_checksum_both_null_reports_difference:
  "MySQL_CompareTableDataByChecksum exampleSourceDB exampleTargetDB ''users'' usersSource =
     ((True, None),
      [QueryRow Source ''CHECKSUM TABLE `users`'',
       QueryRow Target ''CHECKSUM TABLE `users`'',
       Printf ''Checksums not available for table '%s'\<newline>'' [S ''users'']])"
  by (simp add: MySQL_CompareTableDataByChecksum_def Let_def exampleSourceDB_def exampleTargetDB_def
      nullChecksum_def)

text \<open>
  The first tier: when both row-count queries succeed and the counts differ, the result
  is \<open>differs = true\<close> with no error, and the only queries sent are the two count
  queries.
\<close>

lemma SQLite_counts_differ:
  assumes "scanInt sourceDB (''SELECT COUNT(*) FROM '' @ dq @ tableName @ dq) = Inr sourceCount"
    and "scanInt targetDB (''SELECT COUNT(*) FROM '' @ dq @ tableName @ dq) = Inr targetCount"
    and "sourceCount \<noteq> targetCount"
  shows "SQLite_CompareTableDataByChecksum sourceDB targetDB tableName schema =
           ((True, None),
            [Printf ''Comparing data for table '%s'...\<newline>'' [S tableName],
             QueryRow Source (''SELECT COUNT(*) FROM '' @ dq @ tableName @ dq),
             QueryRow Target (''SELECT COUNT(*) FROM '' @ dq @ tableName @ dq),
             Printf ''Table '%s' has different row counts: source=%d, target=%d\<newline>''
               [S tableName, I sourceCount, I targetCount]])"
  using assms
  by (simp add: SQLite_CompareTableDataByChecksum_def SQLite_CompareRowCounts_def rowCounts_def Let_def)

text \<open>
  The second tier works as long as both sums stay below \<open>10^6\<close> in absolute value: then
  the result is \<open>differs = true\<close> exactly when the sums differ.
\<close>

lemma sint_word_of_int_small:
  assumes "\<bar>a\<bar> < 1000000"
  shows "sint (word_of_int a :: int64) = a"
proof -
  have p: "(2::int) ^ 63 = 9223372036854775808" by simp
  from assms have "- (2 ^ 63) \<le> a" and "a < 2 ^ 63"
    unfolding p by linarith+
  then have "signed_take_bit 63 a = a"
    by (rule signed_take_bit_int_eq_self)
  then show ?thesis
    by (simp only: sint_sbintrunc') simp
qed

lemma word_of_int_small_eq:
  assumes "\<bar>a\<bar> < 1000000" and "\<bar>b\<bar> < 1000000"
  shows "(word_of_int a :: int64) = word_of_int b \<longleftrightarrow> a = b"
proof
  assume "(word_of_int a :: int64) = word_of_int b"
  then have "sint (word_of_int a :: int64) = sint (word_of_int b :: int64)" by (rule arg_cong)
  then show "a = b"
    unfolding sint_word_of_int_small [OF assms(1)] sint_word_of_int_small [OF assms(2)] .
next
  assume "a = b"
  then show "(word_of_int a :: int64) = word_of_int b" by (rule arg_cong)
qed

lemma SQLite_small_sums:
  assumes "scanInt sourceDB (''SELECT COUNT(*) FROM '' @ dq @ tableName @ dq) = Inr rowCount"
    and "scanInt targetDB (''SELECT COUNT(*) FROM '' @ dq @ tableName @ dq) = Inr rowCount"
    and "queryReal sourceDB (''SELECT total(rowid) FROM '' @ tableName) = Inr sourceSum"
    and "queryReal targetDB (''SELECT total(rowid) FROM '' @ tableName) = Inr targetSum"
    and "\<bar>sourceSum\<bar> < 1000000" and "\<bar>targetSum\<bar> < 1000000"
  shows "fst (SQLite_CompareTableDataByChecksum sourceDB targetDB tableName schema) =
           (sourceSum \<noteq> targetSum, None)"
  using assms
  by (simp add: SQLite_CompareTableDataByChecksum_def SQLite_CompareRowCounts_def rowCounts_def Let_def
      scanRealIntoInt64_def scanFloatIntoInt64_def word_of_int_small_eq)

text \<open>
  From \<open>10^6\<close> on the scan of the source sum fails: with equal counts the result is
  \<open>differs = false\<close> together with the conversion error, whatever the target sum is, and
  the target sum is not asked for.
\<close>

lemma SQLite_large_source_sum:
  assumes "scanInt sourceDB (''SELECT COUNT(*) FROM '' @ dq @ tableName @ dq) = Inr rowCount"
    and "scanInt targetDB (''SELECT COUNT(*) FROM '' @ dq @ tableName @ dq) = Inr rowCount"
    and "queryReal sourceDB (''SELECT total(rowid) FROM '' @ tableName) = Inr sourceSum"
    and "1000000 \<le> \<bar>sourceSum\<bar>"
  shows "SQLite_CompareTableDataByChecksum sourceDB targetDB tableName schema =
           ((False, Some (ScanConversionError sourceSum)),
            [Printf ''Comparing data for table '%s'...\<newline>'' [S tableName],
             QueryRow Source (''SELECT COUNT(*) FROM '' @ dq @ tableName @ dq),
             QueryRow Target (''SELECT COUNT(*) FROM '' @ dq @ tableName @ dq),
             QueryRow Source (''SELECT total(rowid) FROM '' @ tableName),
             Printf ''Error getting source sum: %v\<newline>'' [E (ScanConversionError sourceSum)]])"
  using assms
  by (simp add: SQLite_CompareTableDataByChecksum_def SQLite_CompareRowCounts_def rowCounts_def Let_def
      scanRealIntoInt64_def scanFloatIntoInt64_def)

text \<open>
  Claim C7 says that with equal row counts \<open>SQLiteAdapter.CompareTableDataByChecksum\<close>
  returns \<open>differs = true\<close> if and only if the sums over the row identifier differ. On
  the example handles both sides have 2000 rows and the sums are 2001000 and 2003000, so
  they differ; the function returns \<open>differs = false\<close> with the error of scanning the
  source sum into \<open>int64\<close>, and never compares the sums.
\<close>

theorem SQLite_differing_sums_not_reported:
  "SQLite_CompareTableDataByChecksum eventsSourceDB eventsTargetDB ''events'' (plainTable ''events'') =
     ((False, Some (ScanConversionError 2001000)),
      [Printf ''Comparing data for table '%s'...\<newline>'' [S ''events''],
       QueryRow Source (''SELECT COUNT(*) FROM '' @ dq @ ''events'' @ dq),
       QueryRow Target (''SELECT COUNT(*) FROM '' @ dq @ ''events'' @ dq),
       QueryRow Source ''SELECT total(rowid) FROM events'',
       Printf ''Error getting source sum: %v\<newline>'' [E (ScanConversionError 2001000)]]) \<and>
   scanInt eventsSourceDB (''SELECT COUNT(*) FROM '' @ dq @ ''events'' @ dq) =
     scanInt eventsTargetDB (''SELECT COUNT(*) FROM '' @ dq @ ''events'' @ dq) \<and>
   queryReal eventsSourceDB ''SELECT total(rowid) FROM events'' = Inr 2001000 \<and>
   queryReal eventsTargetDB ''SELECT total(rowid) FROM events'' = Inr 2003000"
  by (simp add: SQLite_CompareTableDataByChecksum_def SQLite_CompareRowCounts_def rowCounts_def Let_def
      scanRealIntoInt64_def scanFloatIntoInt64_def eventsSourceDB_def eventsTargetDB_def)

section \<open>Properties of the data verification\<close>

lemma percentages_append: "percentages (xs @ ys) = percentages xs @ percentages ys"
  by (induction xs) (simp_all add: percentages_def map_filter_simps split: option.splits)

lemma percentages_Nil: "percentages [] = []"
  by (simp add: percentages_def map_filter_simps)

lemma percentages_Cons:
  "percentages (e # es) = (case progressOf e of None \<Rightarrow> [] | Some p \<Rightarrow> [p]) @ percentages es"
  by (simp add: percentages_def map_filter_simps split: option.splits)

lemma percentages_rowCounts: "percentages (snd (rowCounts q s t)) = []"
  by (simp add: rowCounts_def percentages_Cons percentages_Nil split: sum.splits)

lemma percentages_CompareRowCounts: "percentages (snd (CompareRowCounts ad s t n)) = []"
  by (cases ad)
    (simp_all add: MySQL_CompareRowCounts_def PostgreSQL_CompareRowCounts_def
      SQLite_CompareRowCounts_def percentages_rowCounts)

text \<open>
  One iteration prints the current percentage exactly when it exceeds
  \<open>lastPercentReported\<close>, which then takes that value; nothing else it prints is a
  progress line.
\<close>

lemma tableStep_progress:
  assumes "tableStep ad s t tot (l, sm, out) (i, n) = (l', sm', out')"
  shows "l' = (if l <s percentAt tot i then percentAt tot i else l)"
    and "percentages out' = percentages out @ (if l <s percentAt tot i then [percentAt tot i] else [])"
proof -
  obtain sc tc err ev where c: "CompareRowCounts ad s t n = ((sc, tc, err), ev)"
    by (metis prod_cases3 surj_pair)
  then have ev: "percentages ev = []"
    using percentages_CompareRowCounts [of ad s t n] by simp
  from assms c show "l' = (if l <s percentAt tot i then percentAt tot i else l)"
    by (auto simp: tableStep_def Let_def percentAt_def split: option.splits if_splits)
  from assms c ev
  show "percentages out' = percentages out @ (if l <s percentAt tot i then [percentAt tot i] else [])"
    by (auto simp: tableStep_def Let_def percentAt_def percentages_append percentages_Cons
        percentages_Nil split: option.splits if_splits)
qed

lemma tableStep_inv:
  assumes "progress_inv st"
  shows "progress_inv (tableStep ad s t tot st it)"
proof -
  obtain l sm out where st: "st = (l, sm, out)" by (cases st)
  obtain i n where it: "it = (i, n)" by (cases it)
  obtain l' sm' out' where r: "tableStep ad s t tot (l, sm, out) (i, n) = (l', sm', out')"
    by (cases "tableStep ad s t tot (l, sm, out) (i, n)")
  note p = tableStep_progress [OF r]
  from assms st have sorted: "sorted_wrt (<s) (percentages out)"
    and le: "\<forall>p \<in> set (percentages out). p \<le>s l"
    by (simp_all add: progress_inv_def)
  show ?thesis
  proof (cases "l <s percentAt tot i")
    case True
    with p have l': "l' = percentAt tot i" and ps: "percentages out' = percentages out @ [percentAt tot i]"
      by simp_all
    from le True have lt: "\<forall>p \<in> set (percentages out). p <s percentAt tot i"
      by (auto simp: word_sless_alt word_sle_eq)
    from sorted lt have "sorted_wrt (<s) (percentages out')"
      by (simp add: ps sorted_wrt_append)
    moreover from lt have "\<forall>p \<in> set (percentages out'). p \<le>s l'"
      by (auto simp: ps l' word_sless_alt word_sle_eq)
    ultimately show ?thesis by (simp add: st it r progress_inv_def)
  next
    case False
    with p have "l' = l" and "percentages out' = percentages out" by simp_all
    with sorted le show ?thesis by (simp add: st it r progress_inv_def)
  qed
qed

lemma foldl_tableStep_inv:
  "progress_inv st \<Longrightarrow> progress_inv (foldl (tableStep ad s t tot) st its)"
  by (induction its arbitrary: st) (simp_all add: tableStep_inv)

lemma foldl_tableStep_prefix:
  "\<exists>ps. percentages (snd (snd (foldl (tableStep ad s t tot) st its))) = percentages (snd (snd st)) @ ps"
proof (induction its arbitrary: st)
  case Nil
  then show ?case by simp
next
  case (Cons it its)
  obtain l sm out where st: "st = (l, sm, out)" by (cases st)
  obtain i n where it: "it = (i, n)" by (cases it)
  obtain l' sm' out' where r: "tableStep ad s t tot (l, sm, out) (i, n) = (l', sm', out')"
    by (cases "tableStep ad s t tot (l, sm, out) (i, n)")
  from tableStep_progress(2) [OF r] obtain qs where "percentages out' = percentages out @ qs"
    by blast
  moreover from Cons.IH [of "(l', sm', out')"] obtain ps where
    "percentages (snd (snd (foldl (tableStep ad s t tot) (l', sm', out') its))) = percentages out' @ ps"
    by auto
  ultimately show ?case by (simp add: st it r)
qed

lemma percentAt_0: "percentAt tot 0 = 0"
  by (simp add: percentAt_def go_div_def)

text \<open>
  Claim C9. In the console output of the data verification, the percentages of the
  progress lines printed by the loop over \<open>commonTables\<close> increase strictly (in the signed
  order of Go's \<open>int\<close>), so no percentage is printed twice; the last line printed is the
  final \<open>Progress: 100%\<close>; and when there is at least one common table the loop prints
  progress lines, the first of them 0.
\<close>

theorem progress_strictly_increasing:
  "sorted_wrt (<s)
     (percentages (snd (dataVerification sdr adapter sourceDB targetDB commonTables schemaDifferences))) \<and>
   last (snd (dataVerification sdr adapter sourceDB targetDB commonTables schemaDifferences))
     = Println ''Progress: 100%'' \<and>
   (commonTables \<noteq> [] \<longrightarrow>
      (\<exists>ps. percentages (snd (dataVerification sdr adapter sourceDB targetDB commonTables schemaDifferences))
         = 0 # ps))"
proof -
  define summary1 where "summary1 = foldl schemaDifferencesStep
      \<lparr>DifferentTables = [], DifferentRowCounts = Map.empty, TotalTablesChecked = 0, SchemaOnly = False\<rparr>
      (map fst (range_pairs sdr schemaDifferences))"
  define out0 where "out0 = [Println ''\<newline>=== Data Differences ==='',
                  Printf ''Comparing data for %d tables...\<newline>''
                    [I (word_of_nat (length commonTables))]]"
  define tot :: int64 where "tot = word_of_nat (length commonTables)"
  define final where "final = foldl (tableStep adapter sourceDB targetDB tot) (- 1, summary1, out0)
      (enumerate 0 commonTables)"
  obtain l sm out where f: "final = (l, sm, out)" by (cases final)
  have dv: "dataVerification sdr adapter sourceDB targetDB commonTables schemaDifferences
      = (sm, out @ [Println ''Progress: 100%''])"
    using f by (simp add: dataVerification_def Let_def final_def tot_def out0_def summary1_def)
  have p0: "percentages out0 = []"
    by (simp add: out0_def percentages_Cons percentages_Nil)
  then have "progress_inv (- 1, summary1, out0)"
    by (simp add: progress_inv_def)
  then have "progress_inv final"
    unfolding final_def by (rule foldl_tableStep_inv)
  then have sorted: "sorted_wrt (<s) (percentages out)"
    by (simp add: f progress_inv_def)
  have pe: "percentages (out @ [Println ''Progress: 100%'']) = percentages out"
    by (simp add: percentages_append percentages_Cons percentages_Nil)
  have first: "\<exists>ps. percentages out = 0 # ps" if ne: "commonTables \<noteq> []"
  proof -
    from ne obtain x xs where c: "commonTables = x # xs" by (cases commonTables) auto
    obtain l1 sm1 out1
      where r: "tableStep adapter sourceDB targetDB tot (- 1, summary1, out0) (0, x) = (l1, sm1, out1)"
      by (cases "tableStep adapter sourceDB targetDB tot (- 1, summary1, out0) (0, x)")
    from tableStep_progress(2) [OF r] have "percentages out1 = [0]"
      by (simp add: p0 percentAt_0)
    moreover have "foldl (tableStep adapter sourceDB targetDB tot) (l1, sm1, out1) (enumerate 1 xs)
        = (l, sm, out)"
      using f by (simp add: final_def c r)
    ultimately have "percentages out1 = [0]"
      and "snd (snd (foldl (tableStep adapter sourceDB targetDB tot) (l1, sm1, out1) (enumerate 1 xs))) = out"
      by simp_all
    with foldl_tableStep_prefix [of adapter sourceDB targetDB tot "(l1, sm1, out1)" "enumerate 1 xs"]
    show ?thesis by simp
  qed
  from sorted first show ?thesis
    by (simp add: dv pe)
qed

theorem progress_strictly_increasing_witness:
  "threeTables \<noteq> [] \<and>
   percentages (snd (dataVerification [] SQLiteAdapter exampleSourceDB exampleSourceDB threeTables Map.empty))
     = [0, 33, 66] \<and>
   sorted_wrt (<s) [0, 33, 66 :: int64] \<and>
   last (snd (dataVerification [] SQLiteAdapter exampleSourceDB exampleSourceDB threeTables Map.empty))
     = Println ''Progress: 100%''"
proof -
  have ne: "threeTables \<noteq> []" by (simp add: threeTables_def)
  have p: "percentages (snd (dataVerification [] SQLiteAdapter exampleSourceDB exampleSourceDB threeTables Map.empty))
     = [0, 33, 66]"
    by (simp add: dataVerification_def Let_def threeTables_def tableStep_def go_div_def
        signed_divide_int_def SQLite_CompareRowCounts_def rowCounts_def exampleSourceDB_def
        percentages_Cons percentages_Nil range_pairs_def map_filter_simps enumerate_eq_zip
        word_sless_alt)
  note inst = progress_strictly_increasing
    [of "[]" SQLiteAdapter exampleSourceDB exampleSourceDB threeTables Map.empty]
  have s: "sorted_wrt (<s) [0, 33, 66 :: int64]"
    using inst [THEN conjunct1] unfolding p .
  show ?thesis
    by (intro conjI ne p s inst [THEN conjunct2, THEN conjunct1])
qed

text \<open>
  The example run: \<open>compareDatabases\<close> finds \<open>orders\<close> missing, \<open>products\<close> extra and
  \<open>users\<close> common, with schema differences for \<open>users\<close> only, so \<open>[users]\<close> is an order
  in which \<open>main\<close> may range over \<open>schemaDifferences\<close>.
\<close>

lemma example_compareDatabases:
  "(case compareDatabases exampleRanges exampleSource exampleTarget of
      (missingTables, extraTables, commonTables, schemaDifferences) \<Rightarrow>
        missingTables = [''orders''] \<and> extraTables = [''products''] \<and>
        commonTables = [''users''] \<and> is_range [''users''] schemaDifferences)"
  by (simp add: compareDatabases_def exampleRanges_def exampleSource_def exampleTarget_def
      range_pairs_def map_filter_simps sourceTableStep_def targetTableStep_def
      compareTableSchema_def compareTableSchemaDiffs_eq Let_def usersRanges_def usersSource_def usersTarget_def
      columnMap_def exampleColumn_def sourceEntries_def targetEntries_def primaryKeyEntries_def
      compareStringSlices_def boolMap_def lookupBool_def is_range_def plainTable_def)

text \<open>
  Claim C2 fails on the code. In the example the table \<open>users\<close> has schema differences and
  its row counts differ (100 and 101): the first loop puts it into
  \<open>summary.DifferentTables\<close> (guarded by \<open>contains\<close>), and the loop over \<open>commonTables\<close>
  appends it again without that guard.
\<close>

theorem row_count_difference_added_twice:
  "DifferentTables (fst (mainCompare exampleRanges [''users''] MySQLAdapter exampleSourceDB exampleTargetDB
      exampleSource exampleTarget)) = [''users'', ''users'']"
  by (simp add: mainCompare_def compareDatabases_def exampleRanges_def exampleSource_def exampleTarget_def
      range_pairs_def map_filter_simps sourceTableStep_def targetTableStep_def
      compareTableSchema_def compareTableSchemaDiffs_eq Let_def usersRanges_def usersSource_def usersTarget_def
      columnMap_def exampleColumn_def sourceEntries_def targetEntries_def primaryKeyEntries_def
      compareStringSlices_def boolMap_def lookupBool_def
      dataVerification_def schemaDifferencesStep_def tableStep_def MySQL_CompareRowCounts_def rowCounts_def
      exampleSourceDB_def exampleTargetDB_def)

end
